theory Spec2Isabelle
  imports Complex_Main "HOL-Library.Monad_Syntax"
begin

section \<open>Time values and the calendar of the host\<close>

text \<open>
  A JavaScript \<open>Date\<close> object holds a time value: an integral number of milliseconds
  since 1970-01-01T00:00:00Z of absolute value at most 8.64e15, or NaN (an invalid date).
  The functions of this section follow the abstract operations of the language standard
  that the repository's code reaches through \<open>getFullYear\<close>, \<open>getMonth\<close>,
  \<open>getDate\<close>, \<open>getHours\<close>, \<open>setDate\<close>, \<open>setHours\<close>, \<open>getTime\<close>,
  \<open>toISOString\<close> and \<open>new Date(string)\<close>.  Months are numbered from 0 (January), as
  \<open>getMonth\<close> does.
\<close>

datatype Date = TimeValue int | InvalidDate

definition msPerSecond :: int where "msPerSecond = 1000"
definition msPerMinute :: int where "msPerMinute = 60000"
definition msPerHour :: int where "msPerHour = 3600000"
definition msPerDay :: int where "msPerDay = 86400000"
definition maxTimeValue :: int where "maxTimeValue = 8640000000000000"

definition TimeClip :: "int \<Rightarrow> Date" where
  "TimeClip t = (if \<bar>t\<bar> \<le> maxTimeValue then TimeValue t else InvalidDate)"

text \<open>\<open>getTime()\<close>: the time value, \<open>None\<close> standing for NaN.\<close>

fun getTime :: "Date \<Rightarrow> int option" where
  "getTime (TimeValue t) = Some t"
| "getTime InvalidDate = None"

definition Day :: "int \<Rightarrow> int" where
  "Day t = t div msPerDay"

definition TimeWithinDay :: "int \<Rightarrow> int" where
  "TimeWithinDay t = t mod msPerDay"

definition HourFromTime :: "int \<Rightarrow> int" where
  "HourFromTime t = (t div msPerHour) mod 24"

definition MinFromTime :: "int \<Rightarrow> int" where
  "MinFromTime t = (t div msPerMinute) mod 60"

definition SecFromTime :: "int \<Rightarrow> int" where
  "SecFromTime t = (t div msPerSecond) mod 60"

definition msFromTime :: "int \<Rightarrow> int" where
  "msFromTime t = t mod msPerSecond"

text \<open>
  The proleptic Gregorian calendar.  \<open>civil_of_day z\<close> is the (year, month, day of month)
  of day number \<open>z\<close> (day 0 is 1970-01-01).  The computation counts days from
  0000-03-01, so that the leap day is the last day of a year of the count: 400 years
  have 146097 days, a century 36524, four years 1461, a year 365.
\<close>

definition civil_of_day :: "int \<Rightarrow> int \<times> int \<times> int" where
  "civil_of_day z =
     (let z' = z + 719468;
          era = z' div 146097;
          doe = z' mod 146097;
          c = min (doe div 36524) 3;
          r1 = doe - c * 36524;
          q = r1 div 1461;
          r2 = r1 mod 1461;
          a = min (r2 div 365) 3;
          doy = r2 - a * 365;
          yoe = c * 100 + q * 4 + a;
          mp = (5 * doy + 2) div 153;
          d = doy - (153 * mp + 2) div 5 + 1;
          m = (if mp < 10 then mp + 2 else mp - 10);
          y = yoe + era * 400 + (if m \<le> 1 then 1 else 0)
      in (y, m, d))"

definition day_of_civil :: "int \<Rightarrow> int \<Rightarrow> int \<Rightarrow> int" where
  "day_of_civil y m d =
     (let y' = (if m \<le> 1 then y - 1 else y);
          era = y' div 400;
          yoe = y' mod 400;
          mp = (if 2 \<le> m then m - 2 else m + 10);
          doy = (153 * mp + 2) div 5 + d - 1;
          doe = yoe * 365 + yoe div 4 - yoe div 100 + doy
      in era * 146097 + doe - 719468)"

definition YearFromTime :: "int \<Rightarrow> int" where
  "YearFromTime t = fst (civil_of_day (Day t))"

definition MonthFromTime :: "int \<Rightarrow> int" where
  "MonthFromTime t = fst (snd (civil_of_day (Day t)))"

definition DateFromTime :: "int \<Rightarrow> int" where
  "DateFromTime t = snd (snd (civil_of_day (Day t)))"

definition MakeTime :: "int \<Rightarrow> int \<Rightarrow> int \<Rightarrow> int \<Rightarrow> int" where
  "MakeTime h m s ms = h * msPerHour + m * msPerMinute + s * msPerSecond + ms"

text \<open>\<open>MakeDay\<close>: the day number of the first of the month, plus the day of month less one,
  so that a day of month past the end of the month runs on into the next one.\<close>

definition MakeDay :: "int \<Rightarrow> int \<Rightarrow> int \<Rightarrow> int" where
  "MakeDay year month date =
     day_of_civil (year + month div 12) (month mod 12) 1 + date - 1"

definition MakeDate :: "int \<Rightarrow> int \<Rightarrow> int" where
  "MakeDate day time = day * msPerDay + time"

text \<open>
  Local time.  The host's time zone is a parameter \<open>tz\<close>.  It gives, in milliseconds,
  the offset of local time from UTC that is in effect at a time value, and the offset by
  which the host reads a local time value (at a daylight-saving switch the two differ:
  a local time may not exist, or exist twice).  \<open>LocalTZA\<close>, \<open>LocalTime\<close> and
  \<open>UTC\<close> are the abstract operations of the language standard.
\<close>

record Zone =
  offsetAtUTC :: "int \<Rightarrow> int"
  offsetAtLocal :: "int \<Rightarrow> int"

definition LocalTZA :: "Zone \<Rightarrow> int \<Rightarrow> bool \<Rightarrow> int" where
  "LocalTZA tz t isUTC = (if isUTC then offsetAtUTC tz t else offsetAtLocal tz t)"

definition LocalTime :: "Zone \<Rightarrow> int \<Rightarrow> int" where
  "LocalTime tz t = t + LocalTZA tz t True"

definition UTC :: "Zone \<Rightarrow> int \<Rightarrow> int" where
  "UTC tz t = t - LocalTZA tz t False"

text \<open>A zone whose offset never changes, and the zone of a host that runs on UTC.\<close>

definition fixedZone :: "int \<Rightarrow> Zone" where
  "fixedZone off = \<lparr> offsetAtUTC = (\<lambda>t. off), offsetAtLocal = (\<lambda>t. off) \<rparr>"

definition utcZone :: Zone where
  "utcZone = fixedZone 0"

text \<open>The getters return \<open>None\<close> (NaN) on an invalid date.\<close>

fun getFullYear :: "Zone \<Rightarrow> Date \<Rightarrow> int option" where
  "getFullYear tz (TimeValue t) = Some (YearFromTime (LocalTime tz t))"
| "getFullYear tz InvalidDate = None"

fun getMonth :: "Zone \<Rightarrow> Date \<Rightarrow> int option" where
  "getMonth tz (TimeValue t) = Some (MonthFromTime (LocalTime tz t))"
| "getMonth tz InvalidDate = None"

fun getDate :: "Zone \<Rightarrow> Date \<Rightarrow> int option" where
  "getDate tz (TimeValue t) = Some (DateFromTime (LocalTime tz t))"
| "getDate tz InvalidDate = None"

text \<open>
  \<open>setDate\<close> and \<open>setHours\<close> on a valid date whose time value is \<open>t\<close>, returning the
  new time value.  The code applies them to the current time only, which is far from
  the ends of the range of time values, so the final \<open>TimeClip\<close> is the identity there
  and is left out.
\<close>

definition setDate :: "Zone \<Rightarrow> int \<Rightarrow> int \<Rightarrow> int" where
  "setDate tz t dt =
     (let l = LocalTime tz t
      in UTC tz (MakeDate (MakeDay (YearFromTime l) (MonthFromTime l) dt) (TimeWithinDay l)))"

definition setHours :: "Zone \<Rightarrow> int \<Rightarrow> int \<Rightarrow> int \<Rightarrow> int \<Rightarrow> int \<Rightarrow> int" where
  "setHours tz t h m s ms =
     (let l = LocalTime tz t
      in UTC tz (MakeDate (Day l) (MakeTime h m s ms)))"

text \<open>\<open>!==\<close> on numbers: NaN differs from everything, itself included.\<close>

fun strict_neq :: "int option \<Rightarrow> int option \<Rightarrow> bool" where
  "strict_neq (Some a) (Some b) = (a \<noteq> b)"
| "strict_neq _ _ = True"


section \<open>Strings\<close>

text \<open>
  A string is a list of characters, one per code unit of the JavaScript string; the
  characters of HOL are bytes, so the model covers strings of code units below 256.
\<close>

definition isAsciiUpper :: "char \<Rightarrow> bool" where
  "isAsciiUpper c = (65 \<le> (of_char c :: nat) \<and> (of_char c :: nat) \<le> 90)"

definition isAsciiLower :: "char \<Rightarrow> bool" where
  "isAsciiLower c = (97 \<le> (of_char c :: nat) \<and> (of_char c :: nat) \<le> 122)"

definition isAsciiLetter :: "char \<Rightarrow> bool" where
  "isAsciiLetter c = (isAsciiUpper c \<or> isAsciiLower c)"

text \<open>Case folding of a regular expression with the \<open>i\<close> flag and without the \<open>u\<close>
  flag: a character outside ASCII never equals an ASCII one, so only the ASCII letters
  fold.\<close>

definition canonicalize :: "char \<Rightarrow> char" where
  "canonicalize c = (if isAsciiLower c then char_of ((of_char c :: nat) - 32) else c)"

definition matchesAt :: "string \<Rightarrow> string \<Rightarrow> bool" where
  "matchesAt pat s =
     (length pat \<le> length s \<and>
      map canonicalize (take (length pat) s) = map canonicalize pat)"

text \<open>White space and line terminators, as \<open>trim()\<close> strips them.\<close>

definition isWhiteSpace :: "char \<Rightarrow> bool" where
  "isWhiteSpace c = ((of_char c :: nat) \<in> {9, 10, 11, 12, 13, 32, 160})"

definition trim :: "string \<Rightarrow> string" where
  "trim s = rev (dropWhile isWhiteSpace (rev (dropWhile isWhiteSpace s)))"

text \<open>
  The replacement text of \<open>String.prototype.replace\<close> for a pattern with no capture
  group: \<open>$$\<close> is a dollar sign, \<open>$&\<close> the matched text, \<open>$`\<close> the text before the
  match, \<open>$'\<close> the text after it; any other \<open>$\<close> stands for itself.
\<close>

fun getSubstitution :: "string \<Rightarrow> string \<Rightarrow> string \<Rightarrow> string \<Rightarrow> string" where
  "getSubstitution matched preceding following [] = []"
| "getSubstitution matched preceding following [c] = [c]"
| "getSubstitution matched preceding following (c # d # ds) =
     (if c = CHR ''$'' then
        (if d = CHR ''$'' then CHR ''$'' # getSubstitution matched preceding following ds
         else if d = CHR ''&'' then matched @ getSubstitution matched preceding following ds
         else if d = CHR 0x60 then preceding @ getSubstitution matched preceding following ds
         else if d = CHR 0x27 then following @ getSubstitution matched preceding following ds
         else c # getSubstitution matched preceding following (d # ds))
      else c # getSubstitution matched preceding following (d # ds))"

text \<open>
  \<open>s.replace(/pat/gi, replacement)\<close> for a literal, non-empty pattern: the matches
  are found from left to right and do not overlap.  \<open>preceding\<close> is the part of the
  string already passed, \<open>skip\<close> the number of characters of the last match still to pass.
\<close>

fun replaceFrom :: "string \<Rightarrow> string \<Rightarrow> string \<Rightarrow> nat \<Rightarrow> string \<Rightarrow> string" where
  "replaceFrom pat repl preceding skip [] = []"
| "replaceFrom pat repl preceding (Suc skip) (c # cs) =
     replaceFrom pat repl (preceding @ [c]) skip cs"
| "replaceFrom pat repl preceding 0 (c # cs) =
     (if matchesAt pat (c # cs) then
        getSubstitution (take (length pat) (c # cs)) preceding (drop (length pat) (c # cs)) repl
          @ replaceFrom pat repl (preceding @ [c]) (length pat - 1) cs
      else c # replaceFrom pat repl (preceding @ [c]) 0 cs)"

definition replaceAll :: "string \<Rightarrow> string \<Rightarrow> string \<Rightarrow> string" where
  "replaceAll pat repl s = replaceFrom pat repl [] 0 s"

text \<open>Decimal digits: of a non-negative integer, of any integer, and the last \<open>k\<close>
  digits of a non-negative integer.\<close>

definition digit :: "int \<Rightarrow> char" where
  "digit n = char_of (48 + n mod 10)"

function showDigits :: "int \<Rightarrow> string" where
  "showDigits n = (if n < 10 then [digit n] else showDigits (n div 10) @ [digit n])"
  by pat_completeness auto
termination
  by (relation "measure nat") auto

definition showInt :: "int \<Rightarrow> string" where
  "showInt i = (if i < 0 then CHR ''-'' # showDigits (- i) else showDigits i)"

primrec padDigits :: "nat \<Rightarrow> int \<Rightarrow> string" where
  "padDigits 0 n = []"
| "padDigits (Suc k) n = padDigits k (n div 10) @ [digit n]"

text \<open>\<open>x || y\<close> on strings: the empty string is falsy.\<close>

definition orElse :: "string \<Rightarrow> string \<Rightarrow> string" where
  "orElse x y = (if x = [] then y else x)"


section \<open>The data model (types)\<close>

datatype AgeGroup = Age18_25 | Age26_35 | Age36_45 | Age46_55 | Age56plus | AgeUnknown

datatype Interest =
  Blockchain | AI | FullStackDevelopment | Ecommerce | Startups | Technology | Business | Other

fun ageGroupString :: "AgeGroup \<Rightarrow> string" where
  "ageGroupString Age18_25 = ''18-25''"
| "ageGroupString Age26_35 = ''26-35''"
| "ageGroupString Age36_45 = ''36-45''"
| "ageGroupString Age46_55 = ''46-55''"
| "ageGroupString Age56plus = ''56+''"
| "ageGroupString AgeUnknown = ''unknown''"

fun interestString :: "Interest \<Rightarrow> string" where
  "interestString Blockchain = ''Blockchain''"
| "interestString AI = ''AI''"
| "interestString FullStackDevelopment = ''Full-Stack Development''"
| "interestString Ecommerce = ''E-commerce''"
| "interestString Startups = ''Startups''"
| "interestString Technology = ''Technology''"
| "interestString Business = ''Business''"
| "interestString Other = ''Other''"

text \<open>
  \<open>CustomerProfile\<close>.  An optional field is an option; the field \<open>id\<close> is written
  \<open>id'\<close>.  \<open>messageCount\<close> is a counter that starts at 0 and is only incremented.
\<close>

record CustomerProfile =
  id' :: string
  name :: string
  email :: "string option"
  country :: "string option"
  age :: "int option"
  ageGroup :: "AgeGroup option"
  interests :: "Interest list option"
  bio :: "string option"
  profileUrl :: string
  collectedAt :: Date
  lastMessageSent :: "Date option"
  messageCount :: nat

text \<open>\<open>MessageTemplate\<close> (fields prefixed \<open>t_\<close>) and \<open>MessageHistory\<close> (fields prefixed
  \<open>h_\<close>).\<close>

record MessageTemplate =
  t_id :: string
  t_content :: string
  t_generatedAt :: Date
  t_profileId :: string
  t_profileName :: "string option"
  t_openaiModel :: "string option"
  t_success :: bool
  t_error :: "string option"

record MessageHistory =
  h_id :: string
  h_profileId :: string
  h_profileName :: string
  h_message :: string
  h_sentAt :: Date
  h_success :: bool
  h_error :: "string option"
  h_openaiModel :: "string option"

record RateLimit =
  messagesPerHour :: int
  messagesPerDay :: int
  delayBetweenMessages :: int

record AutomationSettings =
  enabled :: bool
  rateLimit :: RateLimit
  openaiApiKey :: "string option"
  openaiModel :: string
  messageVariation :: bool
  retryAttempts :: int
  senderName :: "string option"

text \<open>\<open>MessageStats\<close>.  The counters are only ever assigned 0 or incremented.\<close>

record MessageStats =
  totalSent :: nat
  totalFailed :: nat
  lastSentAt :: "Date option"
  messagesToday :: nat
  messagesThisHour :: nat


section \<open>The world the services run in\<close>

text \<open>
  What the services do to their surroundings is recorded in \<open>trace\<close>, latest event
  last: a chat completion requested from the OpenAI client (model and prompt), a
  suspension by \<open>setTimeout\<close> (milliseconds), a line printed by \<open>console.log\<close> when a
  message is handed to the transport (recipient name and message).
\<close>

datatype event =
  ChatCompletion string string
| Sleep int
| ConsoleLog string string

text \<open>
  The state: the clock (what \<open>new Date()\<close> and \<open>Date.now()\<close> read), the \<open>stats\<close>
  field of the service's rate limiter, and the four keys of \<open>chrome.storage.local\<close> the
  services use.  A key holding a list reads as the empty list when absent
  (\<open>stored.messageHistory || []\<close>).  The clock moves when the service sleeps; within
  one call of a method it is otherwise read as constant.  The store is taken to work:
  its calls never throw, so the \<open>catch\<close> blocks that only log a storage error have no
  counterpart here.

  The constructor of the rate limiter starts \<open>loadStats\<close> and does not wait for it:
  \<open>loadPending\<close> says that a load has been started and has not landed yet.  Until it
  lands the limiter works on the stats it was constructed with.
\<close>

record World =
  clock :: int
  stats :: MessageStats
  loadPending :: bool
  stored_messageStats :: "MessageStats option"
  stored_messageHistory :: "MessageHistory list"
  stored_messageTemplates :: "MessageTemplate list"
  stored_profiles :: "CustomerProfile list"
  trace :: "event list"

text \<open>
  What the surroundings answer during one call of \<open>sendMessage\<close>: whether the OpenAI
  client has been initialised, what the chat completion request does (it throws, or it
  returns a response whose first choice has the given content, if any), and the two
  values of \<open>Math.random().toString(36).substr(2, 9)\<close> used in record ids.
\<close>

datatype thrown = Error string | NonError

datatype api_outcome = Throws thrown | Responds "string option"

record External =
  openaiClientSet :: bool
  completion :: api_outcome
  templateRandom :: string
  historyRandom :: string


section \<open>The rate limiter (class RateLimiter)\<close>

definition initialStats :: MessageStats where
  "initialStats =
     \<lparr> totalSent = 0, totalFailed = 0, lastSentAt = None,
       messagesToday = 0, messagesThisHour = 0 \<rparr>"

definition saveStats :: "World \<Rightarrow> World" where
  "saveStats w = w\<lparr>stored_messageStats := Some (stats w)\<rparr>"

definition isDifferentDay :: "Zone \<Rightarrow> Date \<Rightarrow> Date \<Rightarrow> bool" where
  "isDifferentDay tz date1 date2 =
     (strict_neq (getFullYear tz date1) (getFullYear tz date2) \<or>
      strict_neq (getMonth tz date1) (getMonth tz date2) \<or>
      strict_neq (getDate tz date1) (getDate tz date2))"

text \<open>\<open>Math.abs(date1.getTime() - date2.getTime()) / (1000 * 60 * 60) >= 1\<close>, the
  quotient being exact on integers of this size; a comparison with NaN is false.\<close>

definition isDifferentHour :: "Date \<Rightarrow> Date \<Rightarrow> bool" where
  "isDifferentHour date1 date2 =
     (case (getTime date1, getTime date2) of
        (Some t1, Some t2) \<Rightarrow> (of_int \<bar>t1 - t2\<bar> :: rat) / (1000 * 60 * 60) \<ge> 1
      | _ \<Rightarrow> False)"

definition updateTimeBasedCounts :: "Zone \<Rightarrow> World \<Rightarrow> World" where
  "updateTimeBasedCounts tz w =
     (let now = TimeValue (clock w);
          lastSent = lastSentAt (stats w);
          w = (case lastSent of
                 None \<Rightarrow> w\<lparr>stats := (stats w)\<lparr>messagesToday := 0\<rparr>\<rparr>
               | Some d \<Rightarrow>
                   if isDifferentDay tz now d
                   then w\<lparr>stats := (stats w)\<lparr>messagesToday := 0\<rparr>\<rparr> else w);
          w = (case lastSent of
                 None \<Rightarrow> w\<lparr>stats := (stats w)\<lparr>messagesThisHour := 0\<rparr>\<rparr>
               | Some d \<Rightarrow>
                   if isDifferentHour now d
                   then w\<lparr>stats := (stats w)\<lparr>messagesThisHour := 0\<rparr>\<rparr> else w)
      in w)"

text \<open>
  \<open>loadStats\<close>, when it lands.  \<open>this.stats = { ...this.stats, ...stored.messageStats }\<close>:
  the stored fields win; \<open>lastSentAt\<close> is kept when the stored object has none.
\<close>

definition loadStats :: "Zone \<Rightarrow> World \<Rightarrow> World" where
  "loadStats tz w =
     (let w = w\<lparr>loadPending := False\<rparr>
      in case stored_messageStats w of
           None \<Rightarrow> w
         | Some s \<Rightarrow>
             updateTimeBasedCounts tz
               (w\<lparr>stats := s\<lparr>lastSentAt :=
                   (case lastSentAt s of None \<Rightarrow> lastSentAt (stats w) | Some d \<Rightarrow> Some d)\<rparr>\<rparr>))"

text \<open>
  \<open>new RateLimiter(settings)\<close>: the stats are zero and a load is started; the
  constructor returns before the load lands.
\<close>

definition newRateLimiter :: "World \<Rightarrow> World" where
  "newRateLimiter w = w\<lparr>stats := initialStats, loadPending := True\<rparr>"

definition getTimeUntilNextDay :: "Zone \<Rightarrow> World \<Rightarrow> int" where
  "getTimeUntilNextDay tz w =
     (let now = clock w;
          tomorrow = now;
          tomorrow = setDate tz tomorrow (DateFromTime (LocalTime tz tomorrow) + 1);
          tomorrow = setHours tz tomorrow 0 0 0 0
      in tomorrow - now)"

definition getTimeUntilNextHour :: "Zone \<Rightarrow> World \<Rightarrow> int" where
  "getTimeUntilNextHour tz w =
     (let now = clock w;
          nextHour = now;
          nextHour = setHours tz nextHour (HourFromTime (LocalTime tz nextHour) + 1) 0 0 0
      in nextHour - now)"

record CanSend =
  allowed :: bool
  reason :: "string option"
  waitTime :: "int option"

definition canSendMessage :: "Zone \<Rightarrow> AutomationSettings \<Rightarrow> World \<Rightarrow> CanSend \<times> World" where
  "canSendMessage tz settings w =
     (let w = updateTimeBasedCounts tz w
      in if int (messagesToday (stats w)) \<ge> messagesPerDay (rateLimit settings) then
           (\<lparr> allowed = False, reason = Some ''Daily message limit reached'',
               waitTime = Some (getTimeUntilNextDay tz w) \<rparr>, w)
         else if int (messagesThisHour (stats w)) \<ge> messagesPerHour (rateLimit settings) then
           (\<lparr> allowed = False, reason = Some ''Hourly message limit reached'',
               waitTime = Some (getTimeUntilNextHour tz w) \<rparr>, w)
         else (\<lparr> allowed = True, reason = None, waitTime = None \<rparr>, w))"

definition recordMessageSent :: "World \<Rightarrow> World" where
  "recordMessageSent w =
     saveStats (w\<lparr>stats := (stats w)
       \<lparr> totalSent := totalSent (stats w) + 1,
         messagesToday := messagesToday (stats w) + 1,
         messagesThisHour := messagesThisHour (stats w) + 1,
         lastSentAt := Some (TimeValue (clock w)) \<rparr>\<rparr>)"

definition recordMessageFailed :: "World \<Rightarrow> World" where
  "recordMessageFailed w =
     saveStats (w\<lparr>stats := (stats w)\<lparr>totalFailed := totalFailed (stats w) + 1\<rparr>\<rparr>)"

text \<open>\<open>getStats\<close> returns a copy of the stats after the rollover.\<close>

definition getStats :: "Zone \<Rightarrow> World \<Rightarrow> MessageStats \<times> World" where
  "getStats tz w = (let w = updateTimeBasedCounts tz w in (stats w, w))"

definition resetStats :: "World \<Rightarrow> World" where
  "resetStats w = saveStats (w\<lparr>stats := initialStats\<rparr>)"


section \<open>The message generator (services/openai)\<close>

definition isOpenAIConfigured :: "External \<Rightarrow> bool" where
  "isOpenAIConfigured ext = openaiClientSet ext"

fun joinWith :: "string \<Rightarrow> string list \<Rightarrow> string" where
  "joinWith sep [] = []"
| "joinWith sep [x] = x"
| "joinWith sep (x # y # ys) = x @ sep @ joinWith sep (y # ys)"

definition createPrompt :: "CustomerProfile \<Rightarrow> string" where
  "createPrompt profile =
     (let prompt = ''Generate a personalized message for this YCStartupSchool member:'' @ [CHR 0x0A, CHR 0x0A];
          prompt = prompt @ ''Name: '' @ name profile @ [CHR 0x0A];
          prompt = (case country profile of
                      Some c \<Rightarrow> if c \<noteq> [] then prompt @ ''Location: '' @ c @ [CHR 0x0A] else prompt
                    | None \<Rightarrow> prompt);
          prompt = (case ageGroup profile of
                      Some g \<Rightarrow> if g \<noteq> AgeUnknown
                                then prompt @ ''Age Group: '' @ ageGroupString g @ [CHR 0x0A] else prompt
                    | None \<Rightarrow> prompt);
          prompt = (case interests profile of
                      Some is \<Rightarrow> if length is > 0
                                 then prompt @ ''Interests: '' @ joinWith '', '' (map interestString is) @ [CHR 0x0A]
                                 else prompt
                    | None \<Rightarrow> prompt);
          prompt = (case bio profile of
                      Some b \<Rightarrow> if b \<noteq> [] then prompt @ ''Bio: '' @ b @ [CHR 0x0A] else prompt
                    | None \<Rightarrow> prompt)
      in prompt @ [CHR 0x0A] @
         ''Write a brief, personalized message that feels natural and genuine. Make it specific to their profile.'')"

text \<open>
  \<open>generatePersonalizedMessage\<close> returns the message (\<open>Inr\<close>) or throws (\<open>Inl\<close>).
  The request to the client is the only thing it does to the world.  An empty or missing
  content throws inside the \<open>try\<close>; the \<open>catch\<close> logs and throws the same error again.
\<close>

definition generatePersonalizedMessage ::
  "External \<Rightarrow> CustomerProfile \<Rightarrow> string \<Rightarrow> World \<Rightarrow> (thrown + string) \<times> World" where
  "generatePersonalizedMessage ext profile model w =
     (if \<not> openaiClientSet ext then
        (Inl (Error ''OpenAI client not initialized. Please set API key.''), w)
      else
        let prompt = createPrompt profile;
            w = w\<lparr>trace := trace w @ [ChatCompletion model prompt]\<rparr>
        in case completion ext of
             Throws e \<Rightarrow> (Inl e, w)
           | Responds content \<Rightarrow>
               (case map_option trim content of
                  None \<Rightarrow> (Inl (Error ''No message generated from OpenAI''), w)
                | Some message \<Rightarrow>
                    if message = [] then (Inl (Error ''No message generated from OpenAI''), w)
                    else (Inr message, w)))"


section \<open>The dispatch pipeline (class MessageDeliveryService)\<close>

text \<open>The result of \<open>sendMessage\<close> (fields prefixed \<open>r_\<close>).\<close>

record SendResult =
  r_success :: bool
  r_message :: "string option"
  r_error :: "string option"

definition hasGreeting :: "string \<Rightarrow> bool" where
  "hasGreeting body =
     list_ex (\<lambda>g. matchesAt g body \<and>
                   (case drop (length g) body of [] \<Rightarrow> False | c # _ \<Rightarrow> \<not> isAsciiLetter c))
       [''hi'', ''hello'', ''hey'']"

definition applyNameTemplate :: "AutomationSettings \<Rightarrow> string \<Rightarrow> CustomerProfile \<Rightarrow> string" where
  "applyNameTemplate settings message profile =
     (let sender = orElse (trim (case senderName settings of None \<Rightarrow> [] | Some n \<Rightarrow> n)) ''Your Name'';
          receiver = orElse (trim (name profile)) ''there'';
          body = trim
            (replaceAll ''<Recipient>'' receiver
            (replaceAll ''{Recipient}'' receiver
            (replaceAll ''[Recipient]'' receiver
            (replaceAll ''<Your Name>'' sender
            (replaceAll ''{Your Name}'' sender
            (replaceAll ''[Your Name]'' sender message))))));
          salutation = (if hasGreeting body then [] else ''Hi '' @ receiver @ '','' @ [CHR 0x0A, CHR 0x0A]);
          closing = [CHR 0x0A, CHR 0x0A] @ ''Best,'' @ [CHR 0x0A] @ sender
      in salutation @ body @ closing)"

text \<open>The transport is a placeholder in the source: it logs the message and reports
  success.\<close>

definition actuallySendMessage :: "CustomerProfile \<Rightarrow> string \<Rightarrow> World \<Rightarrow> bool \<times> World" where
  "actuallySendMessage profile message w =
     (True, w\<lparr>trace := trace w @ [ConsoleLog (name profile) message]\<rparr>)"

definition saveMessageTemplate ::
  "AutomationSettings \<Rightarrow> External \<Rightarrow> CustomerProfile \<Rightarrow> string \<Rightarrow> bool \<Rightarrow> string option
     \<Rightarrow> World \<Rightarrow> World" where
  "saveMessageTemplate settings ext profile message success error w =
     (let template =
            \<lparr> t_id = ''msg-'' @ showInt (clock w) @ ''-'' @ templateRandom ext,
              t_content = message,
              t_generatedAt = TimeValue (clock w),
              t_profileId = id' profile,
              t_profileName = Some (name profile),
              t_openaiModel = Some (openaiModel settings),
              t_success = success,
              t_error = error \<rparr>;
          templates = stored_messageTemplates w @ [template];
          templates = (if length templates > 1000 then tl templates else templates)
      in w\<lparr>stored_messageTemplates := templates\<rparr>)"

definition saveMessageHistory ::
  "AutomationSettings \<Rightarrow> External \<Rightarrow> CustomerProfile \<Rightarrow> string \<Rightarrow> bool \<Rightarrow> string option
     \<Rightarrow> World \<Rightarrow> World" where
  "saveMessageHistory settings ext profile message success error w =
     (let history =
            \<lparr> h_id = ''hist-'' @ showInt (clock w) @ ''-'' @ historyRandom ext,
              h_profileId = id' profile,
              h_profileName = name profile,
              h_message = message,
              h_sentAt = TimeValue (clock w),
              h_success = success,
              h_error = error,
              h_openaiModel = Some (openaiModel settings) \<rparr>;
          historyList = stored_messageHistory w @ [history];
          historyList = (if length historyList > 500 then tl historyList else historyList)
      in w\<lparr>stored_messageHistory := historyList\<rparr>)"

text \<open>\<open>findIndex\<close>: the index of the first element that satisfies the predicate, or -1.\<close>

fun findIndex :: "('a \<Rightarrow> bool) \<Rightarrow> 'a list \<Rightarrow> int" where
  "findIndex P [] = - 1"
| "findIndex P (x # xs) =
     (if P x then 0 else (let i = findIndex P xs in if i < 0 then - 1 else i + 1))"

text \<open>\<open>updateProfileMessageCount\<close> changes the profile object it is given, returned here
  with the world.\<close>

definition updateProfileMessageCount ::
  "CustomerProfile \<Rightarrow> World \<Rightarrow> CustomerProfile \<times> World" where
  "updateProfileMessageCount profile w =
     (let profile = profile\<lparr>messageCount := messageCount profile + 1\<rparr>;
          profile = profile\<lparr>lastMessageSent := Some (TimeValue (clock w))\<rparr>;
          profiles = stored_profiles w;
          index = findIndex (\<lambda>p. id' p = id' profile) profiles;
          profiles = (if index \<ge> 0 then profiles[nat index := profile] else profiles @ [profile])
      in (profile, w\<lparr>stored_profiles := profiles\<rparr>))"

definition delay :: "int \<Rightarrow> World \<Rightarrow> World" where
  "delay ms w = w\<lparr>clock := clock w + ms, trace := trace w @ [Sleep ms]\<rparr>"

text \<open>\<open>error instanceof Error ? error.message : "Unknown error"\<close>\<close>

fun errorMessage :: "thrown \<Rightarrow> string" where
  "errorMessage (Error m) = m"
| "errorMessage NonError = ''Unknown error''"

text \<open>A string argument that may be left out is truthy when it is given and not empty.\<close>

fun truthy :: "string option \<Rightarrow> bool" where
  "truthy None = False"
| "truthy (Some s) = (s \<noteq> [])"

text \<open>
  \<open>sendMessage(profile, customMessage?)\<close> returns its result, the profile object as it
  leaves it, and the world.  The first \<open>try\<close> block ends with a message to deliver
  (\<open>Inr\<close>) or with the result returned from inside it (\<open>Inl\<close>).  Nothing inside the
  second \<open>try\<close> block throws in this model (the transport and the store do not), so
  its \<open>catch\<close> has no counterpart.  The call is modelled as it runs when no load of
  the stats lands in the middle of it.
\<close>

definition sendMessage ::
  "Zone \<Rightarrow> AutomationSettings \<Rightarrow> External \<Rightarrow> CustomerProfile \<Rightarrow> string option \<Rightarrow> World
     \<Rightarrow> SendResult \<times> CustomerProfile \<times> World" where
  "sendMessage tz settings ext profile customMessage w =
     (let (canSend, w) = canSendMessage tz settings w
      in if \<not> allowed canSend then
           (\<lparr> r_success = False, r_message = None,
               r_error = Some (orElse (case reason canSend of None \<Rightarrow> [] | Some r \<Rightarrow> r)
                                 ''Rate limit exceeded'') \<rparr>, profile, w)
         else
           let (acquired, w) =
                 (if truthy customMessage then (Inr (the customMessage), w)
                  else if \<not> isOpenAIConfigured ext then
                    (Inl \<lparr> r_success = False, r_message = None,
                           r_error = Some ''OpenAI API key not configured'' \<rparr>, w)
                  else
                    (case generatePersonalizedMessage ext profile (openaiModel settings) w of
                       (Inr message, w) \<Rightarrow> (Inr (applyNameTemplate settings message profile), w)
                     | (Inl error, w) \<Rightarrow>
                         let errorMsg = errorMessage error;
                             w = recordMessageFailed w;
                             w = saveMessageHistory settings ext profile [] False
                                   (Some (''Failed to generate: '' @ errorMsg)) w
                         in (Inl \<lparr> r_success = False, r_message = None,
                                   r_error = Some (''Failed to generate message: '' @ errorMsg) \<rparr>, w)))
           in case acquired of
                Inl result \<Rightarrow> (result, profile, w)
              | Inr message \<Rightarrow>
                  let w = (if delayBetweenMessages (rateLimit settings) > 0
                           then delay (delayBetweenMessages (rateLimit settings)) w else w);
                      (success, w) = actuallySendMessage profile message w
                  in if success then
                       let w = recordMessageSent w;
                           w = saveMessageTemplate settings ext profile message True None w;
                           w = saveMessageHistory settings ext profile message True None w;
                           (profile, w) = updateProfileMessageCount profile w
                       in (\<lparr> r_success = True, r_message = Some message, r_error = None \<rparr>,
                           profile, w)
                     else
                       let w = recordMessageFailed w;
                           w = saveMessageTemplate settings ext profile message False
                                 (Some ''Failed to send message'') w;
                           w = saveMessageHistory settings ext profile message False
                                 (Some ''Failed to send message'') w
                       in (\<lparr> r_success = False, r_message = None,
                             r_error = Some ''Failed to send message'' \<rparr>, profile, w))"


section \<open>The eligibility test of the automation cycle (background)\<close>

text \<open>
  The predicate that \<open>runAutomationCycle\<close> filters the profiles with, at the reading
  \<open>now\<close> of \<open>Date.now()\<close>.  \<open>new Date(d).getTime()\<close> is the time value of \<open>d\<close>;
  a comparison with NaN is false.
\<close>

definition eligible :: "int \<Rightarrow> CustomerProfile \<Rightarrow> bool" where
  "eligible now profile =
     (if messageCount profile = 0 then True
      else case lastMessageSent profile of
             None \<Rightarrow> True
           | Some d \<Rightarrow>
               (case getTime d of
                  None \<Rightarrow> False
                | Some t \<Rightarrow>
                    let daysSinceLastMessage = (of_int (now - t) :: rat) / (1000 * 60 * 60 * 24)
                    in daysSinceLastMessage \<ge> 7))"

definition eligibleProfiles :: "int \<Rightarrow> CustomerProfile list \<Rightarrow> CustomerProfile list" where
  "eligibleProfiles now filtered = filter (eligible now) filtered"


section \<open>Dates as strings\<close>

text \<open>
  \<open>toISOString()\<close> writes a valid date as \<open>YYYY-MM-DDTHH:mm:ss.sssZ\<close> in UTC, the year
  with four digits from 0 to 9999 and with a sign and six digits otherwise; on an invalid
  date it throws a RangeError.
\<close>

datatype range_error = RangeError

definition isoYear :: "int \<Rightarrow> string" where
  "isoYear y =
     (if 0 \<le> y \<and> y \<le> 9999 then padDigits 4 y
      else (if y < 0 then CHR ''-'' else CHR ''+'') # padDigits 6 \<bar>y\<bar>)"

fun toISOString :: "Date \<Rightarrow> range_error + string" where
  "toISOString InvalidDate = Inl RangeError"
| "toISOString (TimeValue t) =
     Inr (isoYear (YearFromTime t) @
          CHR ''-'' # padDigits 2 (MonthFromTime t + 1) @
          CHR ''-'' # padDigits 2 (DateFromTime t) @
          CHR ''T'' # padDigits 2 (HourFromTime t) @
          CHR '':'' # padDigits 2 (MinFromTime t) @
          CHR '':'' # padDigits 2 (SecFromTime t) @
          CHR ''.'' # padDigits 3 (msFromTime t) @
          ''Z'')"

text \<open>
  \<open>new Date(string)\<close> parses the string and clips the result.  The parser here reads
  the format that \<open>toISOString\<close> writes, all fields present and the time zone \<open>Z\<close>,
  and rejects a field out of its range; what a host makes of a string in any other
  form is left to the host by the language standard, and is an invalid date here.
\<close>

definition digitValue :: "char \<Rightarrow> int option" where
  "digitValue c =
     (if 48 \<le> (of_char c :: int) \<and> (of_char c :: int) \<le> 57
      then Some (of_char c - 48) else None)"

fun readDigitsFrom :: "int \<Rightarrow> string \<Rightarrow> int option" where
  "readDigitsFrom acc [] = Some acc"
| "readDigitsFrom acc (c # cs) =
     (case digitValue c of None \<Rightarrow> None | Some d \<Rightarrow> readDigitsFrom (10 * acc + d) cs)"

text \<open>Exactly \<open>k\<close> digits at the head of the string: their value and the rest.\<close>

definition takeDigits :: "nat \<Rightarrow> string \<Rightarrow> (int \<times> string) option" where
  "takeDigits k s =
     (if k \<le> length s
      then map_option (\<lambda>v. (v, drop k s)) (readDigitsFrom 0 (take k s))
      else None)"

fun expectChar :: "char \<Rightarrow> string \<Rightarrow> string option" where
  "expectChar c [] = None"
| "expectChar c (x # xs) = (if x = c then Some xs else None)"

definition parseDateFields :: "int \<Rightarrow> string \<Rightarrow> int option" where
  "parseDateFields year s =
     do {
       s \<leftarrow> expectChar (CHR ''-'') s;
       (month, s) \<leftarrow> takeDigits 2 s;
       s \<leftarrow> expectChar (CHR ''-'') s;
       (day, s) \<leftarrow> takeDigits 2 s;
       s \<leftarrow> expectChar (CHR ''T'') s;
       (hour, s) \<leftarrow> takeDigits 2 s;
       s \<leftarrow> expectChar (CHR '':'') s;
       (minute, s) \<leftarrow> takeDigits 2 s;
       s \<leftarrow> expectChar (CHR '':'') s;
       (second, s) \<leftarrow> takeDigits 2 s;
       s \<leftarrow> expectChar (CHR ''.'') s;
       (ms, s) \<leftarrow> takeDigits 3 s;
       s \<leftarrow> expectChar (CHR ''Z'') s;
       if s = [] \<and> 1 \<le> month \<and> month \<le> 12 \<and> 1 \<le> day \<and> day \<le> 31 \<and>
          hour \<le> 24 \<and> minute \<le> 59 \<and> second \<le> 59 \<and>
          (if hour = 24 then minute = 0 \<and> second = 0 \<and> ms = 0 else True)
       then Some (MakeDate (MakeDay year (month - 1) day) (MakeTime hour minute second ms))
       else None
     }"

definition parseDate :: "string \<Rightarrow> int option" where
  "parseDate s =
     (case s of
        [] \<Rightarrow> None
      | c # cs \<Rightarrow>
          if c = CHR ''+'' \<or> c = CHR ''-'' then
            (case takeDigits 6 cs of
               None \<Rightarrow> None
             | Some (year, rest) \<Rightarrow>
                 if c = CHR ''-'' then (if year = 0 then None else parseDateFields (- year) rest)
                 else parseDateFields year rest)
          else
            (case takeDigits 4 s of
               None \<Rightarrow> None
             | Some (year, rest) \<Rightarrow> parseDateFields year rest))"

text \<open>\<open>new Date(string)\<close>\<close>

definition newDate :: "string \<Rightarrow> Date" where
  "newDate s = (case parseDate s of None \<Rightarrow> InvalidDate | Some t \<Rightarrow> TimeClip t)"

text \<open>A date object holds a time value in range, or none.\<close>

fun validDate :: "Date \<Rightarrow> bool" where
  "validDate (TimeValue t) = (\<bar>t\<bar> \<le> maxTimeValue)"
| "validDate InvalidDate = False"


section \<open>Serialization of profiles (utils/serialization)\<close>

text \<open>
  The object that \<open>serializeProfile\<close> returns and \<open>deserializeProfile\<close> reads (fields
  prefixed \<open>s_\<close>): the dates are strings.
\<close>

record SerializedProfile =
  s_id :: string
  s_name :: string
  s_email :: "string option"
  s_country :: "string option"
  s_age :: "int option"
  s_ageGroup :: "AgeGroup option"
  s_interests :: "Interest list option"
  s_bio :: "string option"
  s_profileUrl :: string
  s_collectedAt :: string
  s_lastMessageSent :: "string option"
  s_messageCount :: nat

text \<open>
  \<open>serializeProfile\<close> of \<open>utils/serialization.ts\<close>, on a \<open>CustomerProfile\<close>: its two
  date fields are \<open>Date\<close> objects, so the \<open>instanceof Date\<close> branches are the ones
  taken.  It throws when \<open>toISOString\<close> does.
\<close>

definition serializeProfile :: "CustomerProfile \<Rightarrow> range_error + SerializedProfile" where
  "serializeProfile profile =
     (case toISOString (collectedAt profile) of
        Inl e \<Rightarrow> Inl e
      | Inr collected \<Rightarrow>
          (case (case lastMessageSent profile of
                   None \<Rightarrow> Inr None
                 | Some d \<Rightarrow> map_sum (\<lambda>e. e) Some (toISOString d)) of
             Inl e \<Rightarrow> Inl e
           | Inr lastSent \<Rightarrow>
               Inr \<lparr> s_id = id' profile,
                     s_name = name profile,
                     s_email = email profile,
                     s_country = country profile,
                     s_age = age profile,
                     s_ageGroup = ageGroup profile,
                     s_interests = (case interests profile of None \<Rightarrow> None | Some is \<Rightarrow> Some is),
                     s_bio = bio profile,
                     s_profileUrl = profileUrl profile,
                     s_collectedAt = collected,
                     s_lastMessageSent = lastSent,
                     s_messageCount = (if messageCount profile = 0 then 0 else messageCount profile) \<rparr>))"

text \<open>
  The second \<open>serializeProfile\<close> of the repository goes through \<open>safeDate\<close>: an invalid
  date is replaced by the current time (\<open>collectedAt\<close>) or left out
  (\<open>lastMessageSent\<close>).  \<open>now\<close> is the reading of \<open>new Date()\<close>.
\<close>

definition safeDate :: "int \<Rightarrow> Date option \<Rightarrow> bool \<Rightarrow> Date option" where
  "safeDate now value fallbackNow =
     (let d = (case value of
                 Some v \<Rightarrow> Some v
               | None \<Rightarrow> if fallbackNow then Some (TimeValue now) else None)
      in case d of
           Some (TimeValue t) \<Rightarrow> Some (TimeValue t)
         | _ \<Rightarrow> if fallbackNow then Some (TimeValue now) else None)"

definition serializeProfile_safeDate ::
  "int \<Rightarrow> CustomerProfile \<Rightarrow> range_error + SerializedProfile" where
  "serializeProfile_safeDate now profile =
     (let collected = safeDate now (Some (collectedAt profile)) True;
          lastSent = safeDate now (lastMessageSent profile) False
      in case toISOString (case collected of Some d \<Rightarrow> d | None \<Rightarrow> TimeValue now) of
           Inl e \<Rightarrow> Inl e
         | Inr collectedString \<Rightarrow>
             (case (case lastSent of
                      None \<Rightarrow> Inr None
                    | Some d \<Rightarrow> map_sum (\<lambda>e. e) Some (toISOString d)) of
                Inl e \<Rightarrow> Inl e
              | Inr lastSentString \<Rightarrow>
                  Inr \<lparr> s_id = id' profile,
                        s_name = name profile,
                        s_email = email profile,
                        s_country = country profile,
                        s_age = age profile,
                        s_ageGroup = ageGroup profile,
                        s_interests = (case interests profile of None \<Rightarrow> None | Some is \<Rightarrow> Some is),
                        s_bio = bio profile,
                        s_profileUrl = profileUrl profile,
                        s_collectedAt = collectedString,
                        s_lastMessageSent = lastSentString,
                        s_messageCount =
                          (if messageCount profile = 0 then 0 else messageCount profile) \<rparr>))"

text \<open>
  \<open>deserializeProfile\<close>, on an object as \<open>serializeProfile\<close> writes it: a date field
  is a string, used when it is truthy (not empty).
\<close>

definition deserializeProfile :: "int \<Rightarrow> SerializedProfile \<Rightarrow> CustomerProfile" where
  "deserializeProfile now profileData =
     \<lparr> id' = s_id profileData,
       name = s_name profileData,
       email = s_email profileData,
       country = s_country profileData,
       age = s_age profileData,
       ageGroup = s_ageGroup profileData,
       interests = (case s_interests profileData of None \<Rightarrow> None | Some is \<Rightarrow> Some is),
       bio = s_bio profileData,
       profileUrl = s_profileUrl profileData,
       collectedAt = (if s_collectedAt profileData \<noteq> [] then newDate (s_collectedAt profileData)
                      else TimeValue now),
       lastMessageSent = (case s_lastMessageSent profileData of
                            None \<Rightarrow> None
                          | Some s \<Rightarrow> if s \<noteq> [] then Some (newDate s) else None),
       messageCount = (if s_messageCount profileData = 0 then 0 else s_messageCount profileData) \<rparr>"


text \<open>A profile whose date fields hold valid dates.\<close>

definition wellFormedProfile :: "CustomerProfile \<Rightarrow> bool" where
  "wellFormedProfile profile =
     (validDate (collectedAt profile) \<and>
      (case lastMessageSent profile of None \<Rightarrow> True | Some d \<Rightarrow> validDate d))"


section \<open>The ledger as a state machine\<close>

text \<open>
  The operations that touch the stats of a rate limiter, and the clock moving between
  them.  \<open>NewRateLimiter\<close> is the construction of a new limiter, which replaces the old
  one when the settings are updated; \<open>LoadStats\<close> is the landing of the load that a
  constructor started, which may happen between any two of the others, once.
\<close>

datatype ledger_op =
  RecordMessageSent
| RecordMessageFailed
| UpdateTimeBasedCounts
| CanSendMessage
| GetStats
| ResetStats
| LoadStats
| NewRateLimiter
| ClockReads int

fun ledger_step :: "Zone \<Rightarrow> AutomationSettings \<Rightarrow> ledger_op \<Rightarrow> World \<Rightarrow> World" where
  "ledger_step tz settings RecordMessageSent w = recordMessageSent w"
| "ledger_step tz settings RecordMessageFailed w = recordMessageFailed w"
| "ledger_step tz settings UpdateTimeBasedCounts w = updateTimeBasedCounts tz w"
| "ledger_step tz settings CanSendMessage w = snd (canSendMessage tz settings w)"
| "ledger_step tz settings GetStats w = snd (getStats tz w)"
| "ledger_step tz settings ResetStats w = resetStats w"
| "ledger_step tz settings LoadStats w = (if loadPending w then loadStats tz w else w)"
| "ledger_step tz settings NewRateLimiter w = newRateLimiter w"
| "ledger_step tz settings (ClockReads t) w = w\<lparr>clock := t\<rparr>"

definition ledger_run :: "Zone \<Rightarrow> AutomationSettings \<Rightarrow> ledger_op list \<Rightarrow> World \<Rightarrow> World" where
  "ledger_run tz settings ops w = foldl (\<lambda>w op. ledger_step tz settings op w) w ops"

text \<open>A first run: nothing stored, a rate limiter just constructed, its load not yet
  landed.\<close>

definition freshWorld :: "int \<Rightarrow> World" where
  "freshWorld t =
     \<lparr> clock = t, stats = initialStats, loadPending = True, stored_messageStats = None,
       stored_messageHistory = [], stored_messageTemplates = [], stored_profiles = [],
       trace = [] \<rparr>"

definition counters_bounded :: "MessageStats \<Rightarrow> bool" where
  "counters_bounded st =
     (messagesThisHour st \<le> totalSent st \<and> messagesToday st \<le> totalSent st)"

definition ledger_inv :: "World \<Rightarrow> bool" where
  "ledger_inv w =
     (counters_bounded (stats w) \<and>
      (case stored_messageStats w of None \<Rightarrow> True | Some s \<Rightarrow> counters_bounded s))"


section \<open>The eligibility rule as the specification words it\<close>

text \<open>
  A recipient is eligible if \<open>messageCount == 0\<close> or \<open>lastContactedAt\<close> is absent or
  \<open>now - lastContactedAt >= cooldownPerRecipient\<close>.
\<close>

definition eligible_spec :: "int \<Rightarrow> int \<Rightarrow> CustomerProfile \<Rightarrow> bool" where
  "eligible_spec cooldownPerRecipient now profile =
     (messageCount profile = 0 \<or> lastMessageSent profile = None \<or>
      (case lastMessageSent profile of
         Some (TimeValue t) \<Rightarrow> now - t \<ge> cooldownPerRecipient
       | _ \<Rightarrow> False))"


section \<open>Sample states\<close>

text \<open>
  The clock reads 2023-11-14T22:20:00Z.  Three messages have been sent, the last of
  them three hours before (19:20:00Z), in the same day at UTC: the hour window has
  run out and the counters have not been recomputed since.
\<close>

definition sampleStats :: MessageStats where
  "sampleStats =
     \<lparr> totalSent = 3, totalFailed = 0, lastSentAt = Some (TimeValue 1699989600000),
       messagesToday = 3, messagesThisHour = 3 \<rparr>"

definition sampleWorld :: World where
  "sampleWorld =
     \<lparr> clock = 1700000400000, stats = sampleStats, loadPending = False,
       stored_messageStats = Some sampleStats,
       stored_messageHistory = [], stored_messageTemplates = [], stored_profiles = [],
       trace = [] \<rparr>"

text \<open>
  The same three messages, the last of them at 21:20:00Z the day before (2023-11-13):
  the day and the hour have both run out and the counters have not been recomputed
  since.
\<close>

definition staleStats :: MessageStats where
  "staleStats =
     \<lparr> totalSent = 3, totalFailed = 0, lastSentAt = Some (TimeValue 1699910400000),
       messagesToday = 3, messagesThisHour = 3 \<rparr>"

definition staleWorld :: World where
  "staleWorld =
     \<lparr> clock = 1700000400000, stats = staleStats, loadPending = False,
       stored_messageStats = Some staleStats,
       stored_messageHistory = [], stored_messageTemplates = [], stored_profiles = [],
       trace = [] \<rparr>"

text \<open>One message sent ten minutes before, at 22:10:00Z.\<close>

definition recentStats :: MessageStats where
  "recentStats =
     \<lparr> totalSent = 1, totalFailed = 0, lastSentAt = Some (TimeValue 1699999800000),
       messagesToday = 1, messagesThisHour = 1 \<rparr>"

definition recentWorld :: World where
  "recentWorld =
     \<lparr> clock = 1700000400000, stats = recentStats, loadPending = False,
       stored_messageStats = Some recentStats,
       stored_messageHistory = [], stored_messageTemplates = [], stored_profiles = [],
       trace = [] \<rparr>"

definition sampleSettings :: "int \<Rightarrow> int \<Rightarrow> int \<Rightarrow> AutomationSettings" where
  "sampleSettings perHour perDay pause =
     \<lparr> enabled = True,
       rateLimit = \<lparr> messagesPerHour = perHour, messagesPerDay = perDay,
                     delayBetweenMessages = pause \<rparr>,
       openaiApiKey = None, openaiModel = ''gpt-4o-mini'', messageVariation = True,
       retryAttempts = 3, senderName = Some ''Ada'' \<rparr>"

definition sampleProfile :: CustomerProfile where
  "sampleProfile =
     \<lparr> id' = ''p1'', name = ''Grace'', email = None, country = Some ''Canada'',
       age = None, ageGroup = Some Age26_35, interests = Some [AI, Startups],
       bio = None, profileUrl = ''https://example.org/p1'',
       collectedAt = TimeValue 1699000000000,
       lastMessageSent = Some (TimeValue 1699741200000), messageCount = 2 \<rparr>"

definition sampleExternal :: "api_outcome \<Rightarrow> External" where
  "sampleExternal outcome =
     \<lparr> openaiClientSet = True, completion = outcome,
       templateRandom = ''k3x9q0zab'', historyRandom = ''m1n2b3v4c'' \<rparr>"

text \<open>The surroundings when no API key has been set: the client is \<open>null\<close>.\<close>

definition unconfiguredExternal :: External where
  "unconfiguredExternal = (sampleExternal (Responds None))\<lparr>openaiClientSet := False\<rparr>"

text \<open>
  A host on central European time in the autumn of 2023: two hours ahead of UTC until
  2023-10-29T01:00:00Z, when the clocks go back from 03:00 to 02:00, and one hour ahead
  from then on.  A local time that occurs twice is read with the earlier offset.
\<close>

definition autumnZone :: Zone where
  "autumnZone =
     \<lparr> offsetAtUTC = (\<lambda>t. if t < 1698541200000 then 7200000 else 3600000),
       offsetAtLocal = (\<lambda>t. if t < 1698548400000 then 7200000 else 3600000) \<rparr>"

section \<open>The sample states can be reached\<close>

text \<open>
  The sample states are what the limiter's own operations leave after a first run on
  a host on UTC, once the load that the constructor started has landed: three admitted
  sends at 19:00, 19:10 and 19:20 and nothing until 22:20; the same at 21:00, 21:10 and
  21:20 the day before; one admitted send at 22:10 and nothing until 22:20.
\<close>

lemma sampleWorld_reachable:
  "ledger_run utcZone (sampleSettings 5 50 0)
     [LoadStats, CanSendMessage, RecordMessageSent,
      ClockReads 1699989000000, CanSendMessage, RecordMessageSent,
      ClockReads 1699989600000, CanSendMessage, RecordMessageSent,
      ClockReads 1700000400000]
     (freshWorld 1699988400000) = sampleWorld"
  by code_simp

lemma staleWorld_reachable:
  "ledger_run utcZone (sampleSettings 5 50 0)
     [LoadStats, CanSendMessage, RecordMessageSent,
      ClockReads 1699909800000, CanSendMessage, RecordMessageSent,
      ClockReads 1699910400000, CanSendMessage, RecordMessageSent,
      ClockReads 1700000400000]
     (freshWorld 1699909200000) = staleWorld"
  by code_simp

lemma recentWorld_reachable:
  "ledger_run utcZone (sampleSettings 5 50 0)
     [LoadStats, CanSendMessage, RecordMessageSent, ClockReads 1700000400000]
     (freshWorld 1699999800000) = recentWorld"
  by code_simp


section \<open>Properties of the rate limiter\<close>

subsection \<open>What the rollover leaves alone\<close>

lemma updateTimeBasedCounts_frame:
  "clock (updateTimeBasedCounts tz w) = clock w"
  "stored_messageStats (updateTimeBasedCounts tz w) = stored_messageStats w"
  "stored_messageHistory (updateTimeBasedCounts tz w) = stored_messageHistory w"
  "stored_messageTemplates (updateTimeBasedCounts tz w) = stored_messageTemplates w"
  "stored_profiles (updateTimeBasedCounts tz w) = stored_profiles w"
  "trace (updateTimeBasedCounts tz w) = trace w"
  "totalSent (stats (updateTimeBasedCounts tz w)) = totalSent (stats w)"
  "totalFailed (stats (updateTimeBasedCounts tz w)) = totalFailed (stats w)"
  "lastSentAt (stats (updateTimeBasedCounts tz w)) = lastSentAt (stats w)"
  "loadPending (updateTimeBasedCounts tz w) = loadPending w"
  by (simp_all add: updateTimeBasedCounts_def Let_def split: option.split)

lemma updateTimeBasedCounts_world:
  "updateTimeBasedCounts tz w = w\<lparr>stats := stats (updateTimeBasedCounts tz w)\<rparr>"
  by (simp add: updateTimeBasedCounts_def Let_def split: option.split)

lemma updateTimeBasedCounts_idem:
  "updateTimeBasedCounts tz (updateTimeBasedCounts tz w) = updateTimeBasedCounts tz w"
  by (simp add: updateTimeBasedCounts_def Let_def split: option.split)

lemma updateTimeBasedCounts_counters:
  "messagesToday (stats (updateTimeBasedCounts tz w)) = messagesToday (stats w) \<or>
   messagesToday (stats (updateTimeBasedCounts tz w)) = 0"
  "messagesThisHour (stats (updateTimeBasedCounts tz w)) = messagesThisHour (stats w) \<or>
   messagesThisHour (stats (updateTimeBasedCounts tz w)) = 0"
  by (simp_all add: updateTimeBasedCounts_def Let_def split: option.split)

lemma snd_canSendMessage: "snd (canSendMessage tz settings w) = updateTimeBasedCounts tz w"
  by (simp add: canSendMessage_def Let_def)

lemma fst_getStats: "fst (getStats tz w) = stats (updateTimeBasedCounts tz w)"
  by (simp add: getStats_def Let_def)

lemma canSendMessage_again:
  "canSendMessage tz settings (updateTimeBasedCounts tz w) = canSendMessage tz settings w"
  by (simp only: canSendMessage_def Let_def updateTimeBasedCounts_idem)

subsection \<open>The order of the checks\<close>

lemma stale_canSend:
  "canSendMessage utcZone (sampleSettings 5 3 0) staleWorld =
     (\<lparr> allowed = True, reason = None, waitTime = None \<rparr>,
      staleWorld\<lparr>stats := staleStats\<lparr>messagesToday := 0, messagesThisHour := 0\<rparr>\<rparr>)"
  by code_simp

lemma sample_canSend_hourly_limit:
  "fst (canSendMessage utcZone (sampleSettings 3 50 0) sampleWorld) =
     \<lparr> allowed = True, reason = None, waitTime = None \<rparr>"
  by code_simp

text \<open>
  Claim C1, as the specification states it, fails on the counters as the state holds
  them.  \<open>messagesToday\<close> is 3 against a daily limit of 3, but the last send was the
  day before: \<open>canSendMessage\<close> allows.  \<open>messagesThisHour\<close> is 3 against an hourly
  limit of 3, but the last send was three hours ago: \<open>canSendMessage\<close> allows.
\<close>

theorem daily_check_stale_counterexample:
  "messagesToday (stats staleWorld) = 3
   \<and> messagesPerDay (rateLimit (sampleSettings 5 3 0)) = 3
   \<and> allowed (fst (canSendMessage utcZone (sampleSettings 5 3 0) staleWorld))
   \<and> messagesThisHour (stats sampleWorld) = 3
   \<and> messagesPerHour (rateLimit (sampleSettings 3 50 0)) = 3
   \<and> allowed (fst (canSendMessage utcZone (sampleSettings 3 50 0) sampleWorld))"
  by (simp add: stale_canSend sample_canSend_hourly_limit)
     (simp add: staleWorld_def staleStats_def sampleWorld_def sampleStats_def sampleSettings_def)

text \<open>
  Claim C1, amended.  For every state, policy, time and time zone, \<open>canSendMessage\<close>
  first recomputes the window counters and then checks the daily limit before the hourly
  one.  The count of the day is \<open>messagesToday\<close>, or 0 when there is no last send or the
  last send was on another local day; the count of the hour is \<open>messagesThisHour\<close>, or
  0 when there is no last send or the last send was an hour ago or more.  These are the
  counts that \<open>getStats\<close> reports.  If the count of the day has reached
  \<open>messagesPerDay\<close> the answer is a denial with the daily reason, whatever the count of
  the hour; otherwise, if the count of the hour has reached \<open>messagesPerHour\<close>, it is a
  denial with the hourly reason; otherwise the send is allowed.
\<close>

theorem canSendMessage_daily_before_hourly:
  "(let now = TimeValue (clock w);
        today = (case lastSentAt (stats w) of
                   None \<Rightarrow> 0
                 | Some d \<Rightarrow> if isDifferentDay tz now d then 0 else messagesToday (stats w));
        thisHour = (case lastSentAt (stats w) of
                      None \<Rightarrow> 0
                    | Some d \<Rightarrow> if isDifferentHour now d then 0 else messagesThisHour (stats w));
        r = fst (canSendMessage tz settings w)
    in messagesToday (fst (getStats tz w)) = today
     \<and> messagesThisHour (fst (getStats tz w)) = thisHour
     \<and> (allowed r, reason r) =
         (if messagesPerDay (rateLimit settings) \<le> int today
          then (False, Some ''Daily message limit reached'')
          else if messagesPerHour (rateLimit settings) \<le> int thisHour
          then (False, Some ''Hourly message limit reached'')
          else (True, None)))"
proof -
  have today: "messagesToday (stats (updateTimeBasedCounts tz w)) =
     (case lastSentAt (stats w) of
        None \<Rightarrow> 0
      | Some d \<Rightarrow> if isDifferentDay tz (TimeValue (clock w)) d then 0 else messagesToday (stats w))"
    by (simp add: updateTimeBasedCounts_def Let_def split: option.split)
  have hour: "messagesThisHour (stats (updateTimeBasedCounts tz w)) =
     (case lastSentAt (stats w) of
        None \<Rightarrow> 0
      | Some d \<Rightarrow> if isDifferentHour (TimeValue (clock w)) d then 0 else messagesThisHour (stats w))"
    by (simp add: updateTimeBasedCounts_def Let_def split: option.split)
  have decision:
    "(allowed (fst (canSendMessage tz settings w)), reason (fst (canSendMessage tz settings w))) =
       (if messagesPerDay (rateLimit settings) \<le> int (messagesToday (stats (updateTimeBasedCounts tz w)))
        then (False, Some ''Daily message limit reached'')
        else if messagesPerHour (rateLimit settings)
                  \<le> int (messagesThisHour (stats (updateTimeBasedCounts tz w)))
        then (False, Some ''Hourly message limit reached'')
        else (True, None))"
    by (simp add: canSendMessage_def Let_def)
  show ?thesis
    unfolding Let_def fst_getStats decision today hour by simp
qed

subsection \<open>The wait after an hourly denial\<close>

lemma hour_of_day:
  "Day l * msPerDay + HourFromTime l * msPerHour = (l div msPerHour) * msPerHour"
proof -
  define h where "h = l div 3600000"
  have d: "l div 86400000 = h div 24"
    unfolding h_def by (simp add: zdiv_zmult2_eq[symmetric])
  have "h div 24 * 24 + h mod 24 = h" by simp
  then have "h div 24 * 86400000 + h mod 24 * 3600000 = h * 3600000"
    by linarith
  then show ?thesis
    unfolding Day_def HourFromTime_def msPerDay_def msPerHour_def d h_def[symmetric] .
qed

lemma fixedZone_times:
  "LocalTime (fixedZone off) t = t + off" "UTC (fixedZone off) t = t - off"
  by (simp_all add: LocalTime_def UTC_def LocalTZA_def fixedZone_def)

text \<open>On a host whose offset never changes, \<open>getTimeUntilNextHour\<close> is the time from now
  to the next full hour of the wall clock: it does not read \<open>lastSentAt\<close>.\<close>

lemma getTimeUntilNextHour_fixedZone:
  "getTimeUntilNextHour (fixedZone off) w = msPerHour - (clock w + off) mod msPerHour"
proof -
  let ?l = "clock w + off"
  have "getTimeUntilNextHour (fixedZone off) w =
          Day ?l * msPerDay + (HourFromTime ?l + 1) * msPerHour - off - clock w"
    by (simp add: getTimeUntilNextHour_def setHours_def Let_def fixedZone_times MakeDate_def
          MakeTime_def)
  also have "\<dots> = (?l div msPerHour) * msPerHour + msPerHour - ?l"
    using hour_of_day[of ?l] by (simp add: algebra_simps)
  also have "\<dots> = msPerHour - ?l mod msPerHour"
    by (simp add: minus_mod_eq_mult_div[symmetric] algebra_simps)
  finally show ?thesis .
qed

text \<open>Where the clocks go back it can exceed one hour: at 02:30 local time, half an
  hour before they go back from 03:00 to 02:00, it is an hour and a half.\<close>

lemma getTimeUntilNextHour_autumn:
  "getTimeUntilNextHour autumnZone (recentWorld\<lparr>clock := 1698539400000\<rparr>) = 5400000"
  by code_simp

lemma recent_canSend:
  "canSendMessage utcZone (sampleSettings 1 5 0) recentWorld =
     (\<lparr> allowed = False, reason = Some ''Hourly message limit reached'',
        waitTime = Some 2400000 \<rparr>, recentWorld)"
  by code_simp

lemma recent_canSend_later:
  "\<not> allowed (fst (canSendMessage utcZone (sampleSettings 1 5 0)
        (recentWorld\<lparr>clock := 1700000400000 + 2400000\<rparr>)))"
  "reason (fst (canSendMessage utcZone (sampleSettings 1 5 0)
        (recentWorld\<lparr>clock := 1700000400000 + 2400000\<rparr>))) = Some ''Hourly message limit reached''"
  "\<not> allowed (fst (canSendMessage utcZone (sampleSettings 1 5 0)
        (recentWorld\<lparr>clock := 1700000400000 + 2999999\<rparr>)))"
  "allowed (fst (canSendMessage utcZone (sampleSettings 1 5 0)
        (recentWorld\<lparr>clock := 1700000400000 + 3000000\<rparr>)))"
  by code_simp+

text \<open>
  The daily limit, for comparison: the wait that a daily denial returns ends exactly
  when the denial does.  At 22:20 with the daily limit reached the wait is 1 h 40 min
  (6000000 ms); one millisecond before it has passed the limiter still denies, and when
  it has passed the limiter allows.
\<close>

lemma daily_wait_matches_reset:
  "fst (canSendMessage utcZone (sampleSettings 5 3 0) sampleWorld) =
     \<lparr> allowed = False, reason = Some ''Daily message limit reached'',
       waitTime = Some 6000000 \<rparr>"
  "\<not> allowed (fst (canSendMessage utcZone (sampleSettings 5 3 0)
        (sampleWorld\<lparr>clock := 1700000400000 + 5999999\<rparr>)))"
  "allowed (fst (canSendMessage utcZone (sampleSettings 5 3 0)
        (sampleWorld\<lparr>clock := 1700000400000 + 6000000\<rparr>)))"
  by code_simp+

text \<open>
  Claim C5 is not what the code does.  The last message went out at 22:10:00 and the
  clock reads 22:20:00, with an hourly limit of 1: the hour window ends at 23:10:00,
  50 minutes (3000000 ms) away, and that is when the limiter allows again.  The
  \<open>waitTime\<close> of the denial is 40 minutes (2400000 ms), the time to 23:00:00; a
  caller that waits that long is denied again for the hourly limit.
\<close>

theorem hourly_wait_ends_before_the_window:
  "reason (fst (canSendMessage utcZone (sampleSettings 1 5 0) recentWorld))
     = Some ''Hourly message limit reached''
   \<and> lastSentAt (stats recentWorld) = Some (TimeValue 1699999800000)
   \<and> clock recentWorld = 1700000400000
   \<and> 1699999800000 + msPerHour - clock recentWorld = 3000000
   \<and> waitTime (fst (canSendMessage utcZone (sampleSettings 1 5 0) recentWorld)) = Some 2400000
   \<and> reason (fst (canSendMessage utcZone (sampleSettings 1 5 0)
        (recentWorld\<lparr>clock := 1700000400000 + 2400000\<rparr>))) = Some ''Hourly message limit reached''
   \<and> \<not> allowed (fst (canSendMessage utcZone (sampleSettings 1 5 0)
        (recentWorld\<lparr>clock := 1700000400000 + 2999999\<rparr>)))
   \<and> allowed (fst (canSendMessage utcZone (sampleSettings 1 5 0)
        (recentWorld\<lparr>clock := 1700000400000 + 3000000\<rparr>)))"
  using recent_canSend_later
  by (simp add: recent_canSend) (simp add: recentWorld_def recentStats_def msPerHour_def)

subsection \<open>What an admission check changes\<close>

lemma sample_canSend:
  "canSendMessage utcZone (sampleSettings 5 50 0) sampleWorld =
     (\<lparr> allowed = True, reason = None, waitTime = None \<rparr>,
      sampleWorld\<lparr>stats := sampleStats\<lparr>messagesThisHour := 0\<rparr>\<rparr>)"
  by code_simp

text \<open>
  Claim C6, as the specification states it, fails: \<open>canSendMessage\<close> starts with the
  rollover, which writes to the stats in memory.  Three hours after the last send the
  hourly counter in memory is 3 before the call and 0 after it.
\<close>

theorem canSendMessage_mutates_counterexample:
  "messagesThisHour (stats sampleWorld) = 3 \<and>
   messagesThisHour (stats (snd (canSendMessage utcZone (sampleSettings 5 50 0) sampleWorld))) = 0"
  by (simp add: sample_canSend) (simp add: sampleWorld_def sampleStats_def)

text \<open>
  Claim C6, amended.  \<open>canSendMessage\<close> changes nothing but the stats in memory, which
  it leaves as \<open>getStats\<close> reports them: \<open>totalSent\<close>, \<open>totalFailed\<close> and
  \<open>lastSentAt\<close> are unchanged, each window counter is unchanged or reset to 0 by the
  rollover, and the persisted stats are unchanged.  A second call at the same time
  returns the same result and changes nothing at all.
\<close>

theorem canSendMessage_effect:
  "(let (r, w') = canSendMessage tz settings w
    in w' = w\<lparr>stats := fst (getStats tz w)\<rparr>
     \<and> totalSent (stats w') = totalSent (stats w)
     \<and> totalFailed (stats w') = totalFailed (stats w)
     \<and> lastSentAt (stats w') = lastSentAt (stats w)
     \<and> (messagesToday (stats w') = messagesToday (stats w) \<or> messagesToday (stats w') = 0)
     \<and> (messagesThisHour (stats w') = messagesThisHour (stats w)
          \<or> messagesThisHour (stats w') = 0)
     \<and> stored_messageStats w' = stored_messageStats w
     \<and> canSendMessage tz settings w' = (r, w'))"
proof -
  obtain r w' where c: "canSendMessage tz settings w = (r, w')"
    by (cases "canSendMessage tz settings w")
  then have w': "w' = updateTimeBasedCounts tz w"
    using snd_canSendMessage[of tz settings w] by simp
  have again: "canSendMessage tz settings w' = (r, w')"
    unfolding w' canSendMessage_again using c w' by simp
  have world: "w' = w\<lparr>stats := fst (getStats tz w)\<rparr>"
    using updateTimeBasedCounts_world[of tz w] by (simp add: w' fst_getStats)
  have fields: "totalSent (stats w') = totalSent (stats w)"
    "totalFailed (stats w') = totalFailed (stats w)"
    "lastSentAt (stats w') = lastSentAt (stats w)"
    "stored_messageStats w' = stored_messageStats w"
    by (simp_all add: w' updateTimeBasedCounts_frame)
  have counters:
    "messagesToday (stats w') = messagesToday (stats w) \<or> messagesToday (stats w') = 0"
    "messagesThisHour (stats w') = messagesThisHour (stats w) \<or> messagesThisHour (stats w') = 0"
    using updateTimeBasedCounts_counters[of tz w] by (simp_all add: w')
  show ?thesis
    unfolding c Let_def prod.case
    using world fields counters again by blast
qed

subsection \<open>The window counters never exceed the lifetime count\<close>

lemma counters_bounded_update:
  "counters_bounded (stats w) \<Longrightarrow> counters_bounded (stats (updateTimeBasedCounts tz w))"
  by (simp add: counters_bounded_def updateTimeBasedCounts_def Let_def split: option.split)

lemma ledger_inv_update: "ledger_inv w \<Longrightarrow> ledger_inv (updateTimeBasedCounts tz w)"
  by (simp add: ledger_inv_def counters_bounded_update updateTimeBasedCounts_frame)

lemma ledger_inv_recordMessageSent: "counters_bounded (stats w) \<Longrightarrow> ledger_inv (recordMessageSent w)"
  by (simp add: ledger_inv_def counters_bounded_def recordMessageSent_def saveStats_def)

lemma ledger_inv_recordMessageFailed: "counters_bounded (stats w) \<Longrightarrow> ledger_inv (recordMessageFailed w)"
  by (simp add: ledger_inv_def counters_bounded_def recordMessageFailed_def saveStats_def)

lemma ledger_inv_resetStats: "ledger_inv (resetStats w)"
  by (simp add: ledger_inv_def counters_bounded_def resetStats_def saveStats_def initialStats_def)

lemma ledger_inv_loadStats:
  assumes "ledger_inv w"
  shows "ledger_inv (loadStats tz w)"
proof (cases "stored_messageStats w")
  case None
  with assms show ?thesis by (simp add: loadStats_def Let_def ledger_inv_def)
next
  case (Some s)
  define w1 where "w1 = w\<lparr>loadPending := False, stats := s\<lparr>lastSentAt :=
      (case lastSentAt s of None \<Rightarrow> lastSentAt (stats w) | Some d \<Rightarrow> Some d)\<rparr>\<rparr>"
  from assms Some have "ledger_inv w1"
    by (simp add: w1_def ledger_inv_def counters_bounded_def)
  moreover have "loadStats tz w = updateTimeBasedCounts tz w1"
    using Some by (simp add: loadStats_def Let_def w1_def split: option.split)
  ultimately show ?thesis by (simp add: ledger_inv_update)
qed

lemma ledger_inv_newRateLimiter: "ledger_inv w \<Longrightarrow> ledger_inv (newRateLimiter w)"
  by (simp add: newRateLimiter_def ledger_inv_def counters_bounded_def initialStats_def)

lemma ledger_inv_step: "ledger_inv w \<Longrightarrow> ledger_inv (ledger_step tz settings op w)"
proof (cases op)
  case (ClockReads t)
  assume "ledger_inv w"
  then show ?thesis using ClockReads by (simp add: ledger_inv_def)
qed (simp_all add: ledger_inv_update ledger_inv_recordMessageSent ledger_inv_recordMessageFailed
      ledger_inv_resetStats ledger_inv_loadStats ledger_inv_newRateLimiter snd_canSendMessage
      getStats_def Let_def ledger_inv_def[of w])

lemma counters_bounded_step:
  "op \<noteq> LoadStats \<Longrightarrow> op \<noteq> NewRateLimiter \<Longrightarrow> counters_bounded (stats w)
     \<Longrightarrow> counters_bounded (stats (ledger_step tz settings op w))"
  using ledger_inv_recordMessageSent[of w] ledger_inv_recordMessageFailed[of w]
        ledger_inv_resetStats[of w]
  by (cases op)
     (simp_all add: counters_bounded_update snd_canSendMessage getStats_def Let_def ledger_inv_def)

lemma ledger_inv_run: "ledger_inv w \<Longrightarrow> ledger_inv (ledger_run tz settings ops w)"
  unfolding ledger_run_def
  by (induction ops arbitrary: w) (simp_all add: ledger_inv_step)

lemma ledger_inv_fresh: "ledger_inv (freshWorld t)"
  by (simp add: ledger_inv_def counters_bounded_def freshWorld_def initialStats_def)

text \<open>
  Claim C7.  \<open>messagesThisHour <= totalSent\<close> and \<open>messagesToday <= totalSent\<close>
  hold of the initial stats; every operation on the ledger preserves them (together with
  the same bounds on the persisted copy, which \<open>loadStats\<close> reads back; every operation
  that does not load preserves them on the stats in memory alone); so they hold after
  every sequence of operations, at whatever times, from a first run.
\<close>

theorem counters_bounded_invariant:
  "counters_bounded initialStats
   \<and> ledger_inv (freshWorld t)
   \<and> (\<forall>op w. ledger_inv w \<longrightarrow> ledger_inv (ledger_step tz settings op w))
   \<and> (\<forall>op w. op \<noteq> LoadStats \<longrightarrow> op \<noteq> NewRateLimiter \<longrightarrow> counters_bounded (stats w)
         \<longrightarrow> counters_bounded (stats (ledger_step tz settings op w)))
   \<and> (\<forall>ops. messagesThisHour (stats (ledger_run tz settings ops (freshWorld t)))
              \<le> totalSent (stats (ledger_run tz settings ops (freshWorld t)))
            \<and> messagesToday (stats (ledger_run tz settings ops (freshWorld t)))
              \<le> totalSent (stats (ledger_run tz settings ops (freshWorld t))))"
proof -
  have run: "counters_bounded (stats (ledger_run tz settings ops (freshWorld t)))" for ops
    using ledger_inv_run[OF ledger_inv_fresh, of tz settings ops t] by (simp add: ledger_inv_def)
  have init: "counters_bounded initialStats"
    by (simp add: counters_bounded_def initialStats_def)
  show ?thesis
  proof (intro conjI allI impI)
    show "counters_bounded initialStats" by (rule init)
    show "ledger_inv (freshWorld t)" by (rule ledger_inv_fresh)
    show "ledger_inv (ledger_step tz settings op w)" if "ledger_inv w" for op w
      using that by (rule ledger_inv_step)
    show "counters_bounded (stats (ledger_step tz settings op w))"
      if "op \<noteq> LoadStats" "op \<noteq> NewRateLimiter" "counters_bounded (stats w)" for op w
      using that by (rule counters_bounded_step)
    show "messagesThisHour (stats (ledger_run tz settings ops (freshWorld t)))
            \<le> totalSent (stats (ledger_run tz settings ops (freshWorld t)))" for ops
      using run[of ops] by (simp add: counters_bounded_def)
    show "messagesToday (stats (ledger_run tz settings ops (freshWorld t)))
            \<le> totalSent (stats (ledger_run tz settings ops (freshWorld t)))" for ops
      using run[of ops] by (simp add: counters_bounded_def)
  qed
qed

theorem counters_bounded_witness:
  "ledger_inv sampleWorld
   \<and> ledger_inv (ledger_step utcZone (sampleSettings 5 50 0) RecordMessageSent sampleWorld)
   \<and> counters_bounded (stats (ledger_step utcZone (sampleSettings 5 50 0) CanSendMessage sampleWorld))
   \<and> messagesThisHour (stats (ledger_run utcZone (sampleSettings 5 50 0)
        [RecordMessageSent, RecordMessageFailed, ClockReads 1700003700001, CanSendMessage]
        (freshWorld 1700000000000))) = 0
   \<and> totalSent (stats (ledger_run utcZone (sampleSettings 5 50 0)
        [RecordMessageSent, RecordMessageFailed, ClockReads 1700003700001, CanSendMessage]
        (freshWorld 1700000000000))) = 1"
proof -
  have a: "ledger_inv sampleWorld"
    by (simp add: ledger_inv_def counters_bounded_def sampleWorld_def sampleStats_def)
  then have b: "counters_bounded (stats sampleWorld)" by (simp add: ledger_inv_def)
  have c: "CanSendMessage \<noteq> LoadStats" "CanSendMessage \<noteq> NewRateLimiter" by simp_all
  have d: "messagesThisHour (stats (ledger_run utcZone (sampleSettings 5 50 0)
        [RecordMessageSent, RecordMessageFailed, ClockReads 1700003700001, CanSendMessage]
        (freshWorld 1700000000000))) = 0"
    by code_simp
  have e: "totalSent (stats (ledger_run utcZone (sampleSettings 5 50 0)
        [RecordMessageSent, RecordMessageFailed, ClockReads 1700003700001, CanSendMessage]
        (freshWorld 1700000000000))) = 1"
    by code_simp
  from counters_bounded_invariant[of 1700000000000 utcZone "sampleSettings 5 50 0"] a b c d e
  show ?thesis by blast
qed

section \<open>Properties of the eligibility test\<close>

lemma days_rat: "((7::rat) \<le> of_int x / (1000 * 60 * 60 * 24)) = (7 * msPerDay \<le> x)"
proof -
  have "((7::rat) \<le> of_int x / 86400000) = ((604800000::rat) \<le> of_int x)"
    by (simp add: le_divide_eq)
  also have "\<dots> = (604800000 \<le> x)"
    using of_int_le_iff[of 604800000 x, where 'a = rat] by simp
  finally show ?thesis by (simp add: msPerDay_def)
qed

lemma eligible_days:
  "eligible now profile =
     (if messageCount profile = 0 then True
      else case lastMessageSent profile of
             None \<Rightarrow> True
           | Some d \<Rightarrow> (case getTime d of None \<Rightarrow> False | Some t \<Rightarrow> 7 * msPerDay \<le> now - t))"
  unfolding eligible_def Let_def days_rat ..

text \<open>
  Claim C8, amended.  The cooldown is not a parameter of the test: it is seven days.
  A recipient is eligible if and only if \<open>messageCount\<close> is 0, or \<open>lastMessageSent\<close>
  is absent, or at least seven days have passed since \<open>lastMessageSent\<close>.  So a
  recipient never contacted is eligible; one contacted before is eligible from exactly
  seven days after the last contact, and not a millisecond earlier.
\<close>

theorem eligible_seven_days:
  "eligible now profile = eligible_spec (7 * msPerDay) now profile
   \<and> eligible now (profile\<lparr>messageCount := 0\<rparr>)
   \<and> eligible now (profile\<lparr>lastMessageSent := None\<rparr>)
   \<and> eligible now (profile\<lparr>messageCount := Suc n, lastMessageSent := Some (TimeValue t)\<rparr>)
       = (7 * msPerDay \<le> now - t)
   \<and> eligible (t + 7 * msPerDay)
         (profile\<lparr>messageCount := Suc n, lastMessageSent := Some (TimeValue t)\<rparr>)
   \<and> \<not> eligible (t + 7 * msPerDay - 1)
         (profile\<lparr>messageCount := Suc n, lastMessageSent := Some (TimeValue t)\<rparr>)"
proof -
  have "eligible now profile = eligible_spec (7 * msPerDay) now profile"
  proof (cases "lastMessageSent profile")
    case None
    then show ?thesis by (simp add: eligible_days eligible_spec_def)
  next
    case (Some d)
    then show ?thesis by (cases d) (simp_all add: eligible_days eligible_spec_def)
  qed
  then show ?thesis by (simp add: eligible_days)
qed

text \<open>
  Claim C8, as the specification states it, fails for a cooldown other than seven days:
  with a cooldown of one day, a recipient contacted twice, the last time three days ago,
  is eligible by the rule and is not selected by the test.
\<close>

theorem eligible_cooldown_counterexample:
  "messageCount sampleProfile = 2
   \<and> lastMessageSent sampleProfile = Some (TimeValue 1699741200000)
   \<and> 1700000400000 - 1699741200000 = 3 * msPerDay
   \<and> eligible_spec msPerDay 1700000400000 sampleProfile
   \<and> \<not> eligible 1700000400000 sampleProfile"
  by (simp add: eligible_def eligible_spec_def sampleProfile_def msPerDay_def Let_def)

section \<open>Properties of the dispatch pipeline\<close>

subsection \<open>A send that the rate limiter denies\<close>

lemma denied_reason:
  "\<not> allowed (fst (canSendMessage tz settings w)) \<Longrightarrow>
     reason (fst (canSendMessage tz settings w)) = Some ''Daily message limit reached'' \<or>
     reason (fst (canSendMessage tz settings w)) = Some ''Hourly message limit reached''"
  by (simp add: canSendMessage_def Let_def split: if_splits)

lemma sendMessage_denied:
  assumes "\<not> allowed (fst (canSendMessage tz settings w))"
  shows "sendMessage tz settings ext profile customMessage w =
           (\<lparr> r_success = False, r_message = None,
              r_error = reason (fst (canSendMessage tz settings w)) \<rparr>,
            profile, updateTimeBasedCounts tz w)"
proof -
  obtain c w1 where c: "canSendMessage tz settings w = (c, w1)"
    by (cases "canSendMessage tz settings w")
  have w1: "w1 = updateTimeBasedCounts tz w" using snd_canSendMessage[of tz settings w] c by simp
  have "reason c = Some ''Daily message limit reached'' \<or> reason c = Some ''Hourly message limit reached''"
    using denied_reason[OF assms] c by simp
  then have "Some (orElse (case reason c of None \<Rightarrow> [] | Some r \<Rightarrow> r) ''Rate limit exceeded'') = reason c"
    by (auto simp: orElse_def)
  then show ?thesis using assms c w1 by (simp add: sendMessage_def)
qed

text \<open>
  Claim C2, amended.  Whenever the rate limiter denies, \<open>sendMessage\<close> returns a failure
  whose error is the limiter's reason; the profile, the clock, the trace (no generator
  call, no sleep, no delivery) and the whole store (persisted stats, history, templates,
  profiles) are unchanged, and so are \<open>totalSent\<close>, \<open>totalFailed\<close> and \<open>lastSentAt\<close>.
  The stats in memory are left as the limiter's rollover computes them: each window
  counter is unchanged or reset to 0.
\<close>

theorem sendMessage_denied_effect:
  assumes "\<not> allowed (fst (canSendMessage tz settings w))"
  shows "(let (res, profile', w') = sendMessage tz settings ext profile customMessage w
          in r_success res = False
           \<and> r_error res = reason (fst (canSendMessage tz settings w))
           \<and> r_error res \<noteq> None
           \<and> profile' = profile
           \<and> w' = w\<lparr>stats := fst (getStats tz w)\<rparr>
           \<and> totalSent (stats w') = totalSent (stats w)
           \<and> totalFailed (stats w') = totalFailed (stats w)
           \<and> lastSentAt (stats w') = lastSentAt (stats w)
           \<and> (messagesToday (stats w') = messagesToday (stats w) \<or> messagesToday (stats w') = 0)
           \<and> (messagesThisHour (stats w') = messagesThisHour (stats w)
                \<or> messagesThisHour (stats w') = 0)
           \<and> stored_messageStats w' = stored_messageStats w
           \<and> stored_messageHistory w' = stored_messageHistory w
           \<and> stored_messageTemplates w' = stored_messageTemplates w
           \<and> stored_profiles w' = stored_profiles w
           \<and> trace w' = trace w)"
proof -
  have world: "updateTimeBasedCounts tz w = w\<lparr>stats := fst (getStats tz w)\<rparr>"
    using updateTimeBasedCounts_world[of tz w] by (simp add: fst_getStats)
  have r: "reason (fst (canSendMessage tz settings w)) \<noteq> None"
    using denied_reason[OF assms] by auto
  have fields: "totalSent (fst (getStats tz w)) = totalSent (stats w)"
    "totalFailed (fst (getStats tz w)) = totalFailed (stats w)"
    "lastSentAt (fst (getStats tz w)) = lastSentAt (stats w)"
    by (simp_all add: fst_getStats updateTimeBasedCounts_frame)
  have counters:
    "messagesToday (fst (getStats tz w)) = messagesToday (stats w)
       \<or> messagesToday (fst (getStats tz w)) = 0"
    "messagesThisHour (fst (getStats tz w)) = messagesThisHour (stats w)
       \<or> messagesThisHour (fst (getStats tz w)) = 0"
    using updateTimeBasedCounts_counters[of tz w] by (simp_all add: fst_getStats)
  show ?thesis
    unfolding sendMessage_denied[OF assms] Let_def prod.case world
    using r fields counters by simp
qed

lemma sample_canSend_daily:
  "canSendMessage utcZone (sampleSettings 5 3 0) sampleWorld =
     (\<lparr> allowed = False, reason = Some ''Daily message limit reached'', waitTime = Some 6000000 \<rparr>,
      sampleWorld\<lparr>stats := sampleStats\<lparr>messagesThisHour := 0\<rparr>\<rparr>)"
  by code_simp

lemma sample_sendMessage_denied:
  "sendMessage utcZone (sampleSettings 5 3 0) (sampleExternal (Responds None)) sampleProfile None sampleWorld =
     (\<lparr> r_success = False, r_message = None, r_error = Some ''Daily message limit reached'' \<rparr>,
      sampleProfile, sampleWorld\<lparr>stats := sampleStats\<lparr>messagesThisHour := 0\<rparr>\<rparr>)"
  by code_simp

text \<open>
  Claim C2, as the specification states it, fails on the window counters in memory.
  The daily limit of 3 is reached and the last send was three hours ago: the send is
  denied, and the hourly counter is 3 before the call and 0 after it.
\<close>

theorem sendMessage_denied_counterexample:
  "\<not> allowed (fst (canSendMessage utcZone (sampleSettings 5 3 0) sampleWorld))
   \<and> messagesThisHour (stats sampleWorld) = 3
   \<and> messagesThisHour (stats (snd (snd
        (sendMessage utcZone (sampleSettings 5 3 0) (sampleExternal (Responds None)) sampleProfile None
           sampleWorld)))) = 0"
  by (simp add: sample_canSend_daily sample_sendMessage_denied)
     (simp add: sampleWorld_def sampleStats_def)

theorem sendMessage_denied_witness:
  "\<not> allowed (fst (canSendMessage utcZone (sampleSettings 5 3 0) sampleWorld))
   \<and> fst (sendMessage utcZone (sampleSettings 5 3 0) (sampleExternal (Responds None)) sampleProfile None
           sampleWorld)
       = \<lparr> r_success = False, r_message = None, r_error = Some ''Daily message limit reached'' \<rparr>
   \<and> stored_messageStats (snd (snd
        (sendMessage utcZone (sampleSettings 5 3 0) (sampleExternal (Responds None)) sampleProfile None
           sampleWorld))) = Some sampleStats
   \<and> stored_messageHistory (snd (snd
        (sendMessage utcZone (sampleSettings 5 3 0) (sampleExternal (Responds None)) sampleProfile None
           sampleWorld))) = []"
proof -
  have h: "\<not> allowed (fst (canSendMessage utcZone (sampleSettings 5 3 0) sampleWorld))"
    by (simp add: sample_canSend_daily)
  have s: "stored_messageStats sampleWorld = Some sampleStats" "stored_messageHistory sampleWorld = []"
    by (simp_all add: sampleWorld_def)
  from sendMessage_denied_effect[OF h, of "sampleExternal (Responds None)" sampleProfile None] h s
  show ?thesis
    by (simp add: sample_sendMessage_denied)
qed

subsection \<open>A send with the text given by the caller\<close>

lemma admitted_world:
  assumes "allowed (fst (canSendMessage tz settings w))"
  shows "canSendMessage tz settings w =
           (\<lparr> allowed = True, reason = None, waitTime = None \<rparr>, updateTimeBasedCounts tz w)"
  using assms by (simp add: canSendMessage_def Let_def split: if_splits)

lemma saveMessageHistory_frame:
  "clock (saveMessageHistory settings ext profile message success error w) = clock w"
  "stats (saveMessageHistory settings ext profile message success error w) = stats w"
  "stored_messageStats (saveMessageHistory settings ext profile message success error w) = stored_messageStats w"
  "stored_messageTemplates (saveMessageHistory settings ext profile message success error w) = stored_messageTemplates w"
  "stored_profiles (saveMessageHistory settings ext profile message success error w) = stored_profiles w"
  "trace (saveMessageHistory settings ext profile message success error w) = trace w"
  by (simp_all add: saveMessageHistory_def Let_def)

lemma saveMessageHistory_last:
  "stored_messageHistory (saveMessageHistory settings ext profile message success error w) \<noteq> []"
  "last (stored_messageHistory (saveMessageHistory settings ext profile message success error w)) =
     \<lparr> h_id = ''hist-'' @ showInt (clock w) @ ''-'' @ historyRandom ext,
       h_profileId = id' profile, h_profileName = name profile, h_message = message,
       h_sentAt = TimeValue (clock w), h_success = success, h_error = error,
       h_openaiModel = Some (openaiModel settings) \<rparr>"
  by (cases "stored_messageHistory w"; simp add: saveMessageHistory_def Let_def)+

lemma saveMessageTemplate_frame:
  "clock (saveMessageTemplate settings ext profile message success error w) = clock w"
  "stats (saveMessageTemplate settings ext profile message success error w) = stats w"
  "stored_messageStats (saveMessageTemplate settings ext profile message success error w) = stored_messageStats w"
  "stored_messageHistory (saveMessageTemplate settings ext profile message success error w) = stored_messageHistory w"
  "stored_profiles (saveMessageTemplate settings ext profile message success error w) = stored_profiles w"
  "trace (saveMessageTemplate settings ext profile message success error w) = trace w"
  by (simp_all add: saveMessageTemplate_def Let_def)

lemma record_frame:
  "clock (recordMessageSent w) = clock w" "trace (recordMessageSent w) = trace w"
  "stored_messageHistory (recordMessageSent w) = stored_messageHistory w"
  "stored_messageTemplates (recordMessageSent w) = stored_messageTemplates w"
  "stored_profiles (recordMessageSent w) = stored_profiles w"
  "clock (recordMessageFailed w) = clock w" "trace (recordMessageFailed w) = trace w"
  "stored_messageHistory (recordMessageFailed w) = stored_messageHistory w"
  "stored_messageTemplates (recordMessageFailed w) = stored_messageTemplates w"
  "stored_profiles (recordMessageFailed w) = stored_profiles w"
  by (simp_all add: recordMessageSent_def recordMessageFailed_def saveStats_def)

lemma updateProfileMessageCount_frame:
  "clock (snd (updateProfileMessageCount profile w)) = clock w"
  "stats (snd (updateProfileMessageCount profile w)) = stats w"
  "stored_messageStats (snd (updateProfileMessageCount profile w)) = stored_messageStats w"
  "stored_messageHistory (snd (updateProfileMessageCount profile w)) = stored_messageHistory w"
  "stored_messageTemplates (snd (updateProfileMessageCount profile w)) = stored_messageTemplates w"
  "trace (snd (updateProfileMessageCount profile w)) = trace w"
  by (simp_all add: updateProfileMessageCount_def Let_def)

text \<open>The pipeline from the pacing step on, for a message in hand.\<close>

lemma sendMessage_override_admitted:
  assumes "allowed (fst (canSendMessage tz settings w))" and "m \<noteq> []"
  shows "sendMessage tz settings ext profile (Some m) w =
     (let w1 = updateTimeBasedCounts tz w;
          w2 = (if delayBetweenMessages (rateLimit settings) > 0
                then delay (delayBetweenMessages (rateLimit settings)) w1 else w1);
          w3 = snd (actuallySendMessage profile m w2);
          w4 = recordMessageSent w3;
          w5 = saveMessageTemplate settings ext profile m True None w4;
          w6 = saveMessageHistory settings ext profile m True None w5
      in (\<lparr> r_success = True, r_message = Some m, r_error = None \<rparr>,
          updateProfileMessageCount profile w6))"
  using assms(2)
  by (simp add: sendMessage_def admitted_world[OF assms(1)] Let_def actuallySendMessage_def
        split: prod.split)


lemma override_admitted_facts:
  assumes "allowed (fst (canSendMessage tz settings w))" and "m \<noteq> []"
  shows "fst (sendMessage tz settings ext profile (Some m) w)
           = \<lparr> r_success = True, r_message = Some m, r_error = None \<rparr>"
    and "trace (snd (snd (sendMessage tz settings ext profile (Some m) w))) =
           trace w @ (if 0 < delayBetweenMessages (rateLimit settings)
                      then [Sleep (delayBetweenMessages (rateLimit settings))] else [])
                   @ [ConsoleLog (name profile) m]"
    and "clock (snd (snd (sendMessage tz settings ext profile (Some m) w))) =
           clock w + (if 0 < delayBetweenMessages (rateLimit settings)
                      then delayBetweenMessages (rateLimit settings) else 0)"
    and "stored_messageHistory (snd (snd (sendMessage tz settings ext profile (Some m) w))) \<noteq> []"
    and "h_message (last (stored_messageHistory
           (snd (snd (sendMessage tz settings ext profile (Some m) w))))) = m"
    and "h_success (last (stored_messageHistory
           (snd (snd (sendMessage tz settings ext profile (Some m) w)))))"
  unfolding sendMessage_override_admitted[OF assms] Let_def
  by (simp_all add: updateProfileMessageCount_frame saveMessageHistory_frame
        saveMessageHistory_last saveMessageTemplate_frame record_frame
        actuallySendMessage_def delay_def updateTimeBasedCounts_frame)

text \<open>
  Claim C3, amended.  For every recipient and every non-empty \<open>customMessage\<close>,
  \<open>sendMessage\<close> never calls the message generator, and when the rate limiter admits
  the send it delivers the text as given (no placeholder substituted, no greeting, no
  signature) and records it as given.  The pacing delay is not skipped: whenever
  \<open>delayBetweenMessages > 0\<close> the pipeline sleeps that long before the delivery, on
  this path as on the generated one.
\<close>

theorem sendMessage_override:
  assumes "m \<noteq> []"
  shows "(let (res, profile', w') = sendMessage tz settings ext profile (Some m) w;
              adm = allowed (fst (canSendMessage tz settings w));
              pause = delayBetweenMessages (rateLimit settings)
          in r_success res = adm
           \<and> r_message res = (if adm then Some m else None)
           \<and> trace w' = trace w @
                (if adm then (if 0 < pause then [Sleep pause] else []) @ [ConsoleLog (name profile) m]
                 else [])
           \<and> clock w' = clock w + (if adm \<and> 0 < pause then pause else 0)
           \<and> (if adm
                then stored_messageHistory w' \<noteq> []
                   \<and> h_message (last (stored_messageHistory w')) = m
                   \<and> h_success (last (stored_messageHistory w'))
                else stored_messageHistory w' = stored_messageHistory w))"
proof (cases "allowed (fst (canSendMessage tz settings w))")
  case True
  obtain res profile' w' where s: "sendMessage tz settings ext profile (Some m) w = (res, profile', w')"
    by (cases "sendMessage tz settings ext profile (Some m) w")
  show ?thesis
    using override_admitted_facts[OF True assms, of ext profile] True
    by (simp add: s Let_def)
next
  case False
  show ?thesis
    using False
    by (simp add: sendMessage_denied[OF False] Let_def updateTimeBasedCounts_frame)
qed

lemma recent_admitted: "allowed (fst (canSendMessage utcZone (sampleSettings 5 50 60000) recentWorld))"
  by code_simp

text \<open>
  Claim C3, as the specification states it, fails on the pacing delay: with
  \<open>delayBetweenMessages\<close> of one minute and the text given by the caller, the pipeline
  sleeps 60000 ms before it delivers, and the clock has moved by as much.
\<close>

theorem override_pacing_counterexample:
  "trace recentWorld = []
   \<and> trace (snd (snd (sendMessage utcZone (sampleSettings 5 50 60000) (sampleExternal (Responds None))
        sampleProfile (Some ''Hello'') recentWorld))) = [Sleep 60000, ConsoleLog ''Grace'' ''Hello'']
   \<and> clock (snd (snd (sendMessage utcZone (sampleSettings 5 50 60000) (sampleExternal (Responds None))
        sampleProfile (Some ''Hello'') recentWorld))) = clock recentWorld + 60000"
proof -
  have m: "''Hello'' \<noteq> []" by simp
  show ?thesis
    using override_admitted_facts(2,3)[OF recent_admitted m,
            of "sampleExternal (Responds None)" sampleProfile]
    by (simp add: sampleSettings_def sampleProfile_def recentWorld_def)
qed

theorem sendMessage_override_witness:
  "''Hello'' \<noteq> []
   \<and> allowed (fst (canSendMessage utcZone (sampleSettings 5 50 0) recentWorld))
   \<and> r_message (fst (sendMessage utcZone (sampleSettings 5 50 0) (sampleExternal (Responds None))
        sampleProfile (Some ''Hello'') recentWorld)) = Some ''Hello''
   \<and> trace (snd (snd (sendMessage utcZone (sampleSettings 5 50 0) (sampleExternal (Responds None))
        sampleProfile (Some ''Hello'') recentWorld))) = [ConsoleLog ''Grace'' ''Hello'']"
proof -
  have h: "''Hello'' \<noteq> []" by simp
  have a: "allowed (fst (canSendMessage utcZone (sampleSettings 5 50 0) recentWorld))"
    by code_simp
  from sendMessage_override[OF h, of utcZone "sampleSettings 5 50 0" "sampleExternal (Responds None)"
        sampleProfile recentWorld] a
  show ?thesis
    by (simp add: case_prod_beta Let_def sampleSettings_def sampleProfile_def recentWorld_def)
qed

subsection \<open>A send with generated text\<close>

lemma snd_generatePersonalizedMessage:
  "openaiClientSet ext \<Longrightarrow>
     snd (generatePersonalizedMessage ext profile model w) =
       w\<lparr>trace := trace w @ [ChatCompletion model (createPrompt profile)]\<rparr>"
  by (simp add: generatePersonalizedMessage_def Let_def split: api_outcome.split option.split)

lemma fst_generatePersonalizedMessage:
  "fst (generatePersonalizedMessage ext profile model w) =
     fst (generatePersonalizedMessage ext profile model w')"
  by (simp add: generatePersonalizedMessage_def Let_def split: api_outcome.split option.split)

lemma sendMessage_generation_fails:
  assumes "allowed (fst (canSendMessage tz settings w))"
    and "\<not> truthy customMessage"
    and "isOpenAIConfigured ext"
    and "fst (generatePersonalizedMessage ext profile (openaiModel settings)
               (snd (canSendMessage tz settings w))) = Inl e"
  shows "sendMessage tz settings ext profile customMessage w =
     (let w1 = updateTimeBasedCounts tz w;
          w2 = w1\<lparr>trace := trace w1 @ [ChatCompletion (openaiModel settings) (createPrompt profile)]\<rparr>;
          w3 = recordMessageFailed w2;
          w4 = saveMessageHistory settings ext profile [] False
                 (Some (''Failed to generate: '' @ errorMessage e)) w3
      in (\<lparr> r_success = False, r_message = None,
            r_error = Some (''Failed to generate message: '' @ errorMessage e) \<rparr>, profile, w4))"
proof -
  let ?w1 = "updateTimeBasedCounts tz w"
  have c: "openaiClientSet ext" using assms(3) by (simp add: isOpenAIConfigured_def)
  obtain g w2 where g: "generatePersonalizedMessage ext profile (openaiModel settings) ?w1 = (g, w2)"
    by (cases "generatePersonalizedMessage ext profile (openaiModel settings) ?w1")
  have g1: "g = Inl e" using assms(4) g by (simp add: snd_canSendMessage)
  have g2: "w2 = ?w1\<lparr>trace := trace ?w1 @ [ChatCompletion (openaiModel settings) (createPrompt profile)]\<rparr>"
    using snd_generatePersonalizedMessage[OF c, of profile "openaiModel settings" ?w1] g by simp
  show ?thesis
    using assms(2,3) g g1 g2
    by (simp add: sendMessage_def admitted_world[OF assms(1)] Let_def)
qed

lemma sendMessage_generated:
  assumes "allowed (fst (canSendMessage tz settings w))"
    and "\<not> truthy customMessage"
    and "isOpenAIConfigured ext"
    and "fst (generatePersonalizedMessage ext profile (openaiModel settings) w) = Inr generated"
  shows "sendMessage tz settings ext profile customMessage w =
     (let m = applyNameTemplate settings generated profile;
          w1 = updateTimeBasedCounts tz w;
          w1 = w1\<lparr>trace := trace w1 @ [ChatCompletion (openaiModel settings) (createPrompt profile)]\<rparr>;
          w2 = (if delayBetweenMessages (rateLimit settings) > 0
                then delay (delayBetweenMessages (rateLimit settings)) w1 else w1);
          w3 = snd (actuallySendMessage profile m w2);
          w4 = recordMessageSent w3;
          w5 = saveMessageTemplate settings ext profile m True None w4;
          w6 = saveMessageHistory settings ext profile m True None w5
      in (\<lparr> r_success = True, r_message = Some m, r_error = None \<rparr>,
          updateProfileMessageCount profile w6))"
proof -
  let ?w1 = "updateTimeBasedCounts tz w"
  have c: "openaiClientSet ext" using assms(3) by (simp add: isOpenAIConfigured_def)
  obtain g w2 where g: "generatePersonalizedMessage ext profile (openaiModel settings) ?w1 = (g, w2)"
    by (cases "generatePersonalizedMessage ext profile (openaiModel settings) ?w1")
  have g1: "g = Inr generated"
    using assms(4) g fst_generatePersonalizedMessage[of ext profile "openaiModel settings" ?w1 w]
    by simp
  have g2: "w2 = ?w1\<lparr>trace := trace ?w1 @ [ChatCompletion (openaiModel settings) (createPrompt profile)]\<rparr>"
    using snd_generatePersonalizedMessage[OF c, of profile "openaiModel settings" ?w1] g by simp
  show ?thesis
    using assms(2,3) g g1 g2
    by (simp add: sendMessage_def admitted_world[OF assms(1)] Let_def actuallySendMessage_def
          split: prod.split)
qed

lemma sendMessage_not_configured:
  assumes "allowed (fst (canSendMessage tz settings w))"
    and "\<not> truthy customMessage"
    and "\<not> isOpenAIConfigured ext"
  shows "sendMessage tz settings ext profile customMessage w =
     (\<lparr> r_success = False, r_message = None,
        r_error = Some ''OpenAI API key not configured'' \<rparr>, profile, updateTimeBasedCounts tz w)"
  using assms(2,3) by (simp add: sendMessage_def admitted_world[OF assms(1)] Let_def)


lemma failed_generation_world:
  fixes err :: "string option"
  defines "w4 \<equiv> \<lambda>tz settings ext profile w.
     saveMessageHistory settings ext profile [] False err
       (recordMessageFailed
         ((updateTimeBasedCounts tz w)\<lparr>trace := trace (updateTimeBasedCounts tz w) @
             [ChatCompletion (openaiModel settings) (createPrompt profile)]\<rparr>))"
  shows "stats (w4 tz settings ext profile w)
           = (fst (getStats tz w))\<lparr>totalFailed := totalFailed (stats w) + 1\<rparr>"
    and "stored_messageStats (w4 tz settings ext profile w) = Some (stats (w4 tz settings ext profile w))"
    and "totalFailed (stats (w4 tz settings ext profile w)) = totalFailed (stats w) + 1"
    and "totalSent (stats (w4 tz settings ext profile w)) = totalSent (stats w)"
    and "lastSentAt (stats (w4 tz settings ext profile w)) = lastSentAt (stats w)"
    and "messagesToday (stats (w4 tz settings ext profile w)) = messagesToday (stats w)
           \<or> messagesToday (stats (w4 tz settings ext profile w)) = 0"
    and "messagesThisHour (stats (w4 tz settings ext profile w)) = messagesThisHour (stats w)
           \<or> messagesThisHour (stats (w4 tz settings ext profile w)) = 0"
    and "stored_messageHistory (w4 tz settings ext profile w) =
           (let l = stored_messageHistory w @
                      [\<lparr> h_id = ''hist-'' @ showInt (clock w) @ ''-'' @ historyRandom ext,
                         h_profileId = id' profile, h_profileName = name profile,
                         h_message = [], h_sentAt = TimeValue (clock w), h_success = False,
                         h_error = err, h_openaiModel = Some (openaiModel settings) \<rparr>]
            in if length l > 500 then tl l else l)"
    and "stored_messageHistory (w4 tz settings ext profile w) \<noteq> []"
    and "\<not> h_success (last (stored_messageHistory (w4 tz settings ext profile w)))"
    and "h_error (last (stored_messageHistory (w4 tz settings ext profile w))) = err"
    and "stored_messageTemplates (w4 tz settings ext profile w) = stored_messageTemplates w"
    and "stored_profiles (w4 tz settings ext profile w) = stored_profiles w"
    and "trace (w4 tz settings ext profile w)
           = trace w @ [ChatCompletion (openaiModel settings) (createPrompt profile)]"
    and "clock (w4 tz settings ext profile w) = clock w"
proof -
  show "stats (w4 tz settings ext profile w)
           = (fst (getStats tz w))\<lparr>totalFailed := totalFailed (stats w) + 1\<rparr>"
    by (simp add: w4_def saveMessageHistory_frame recordMessageFailed_def saveStats_def fst_getStats
          updateTimeBasedCounts_frame)
  then show "totalFailed (stats (w4 tz settings ext profile w)) = totalFailed (stats w) + 1"
    "totalSent (stats (w4 tz settings ext profile w)) = totalSent (stats w)"
    "lastSentAt (stats (w4 tz settings ext profile w)) = lastSentAt (stats w)"
    "messagesToday (stats (w4 tz settings ext profile w)) = messagesToday (stats w)
           \<or> messagesToday (stats (w4 tz settings ext profile w)) = 0"
    "messagesThisHour (stats (w4 tz settings ext profile w)) = messagesThisHour (stats w)
           \<or> messagesThisHour (stats (w4 tz settings ext profile w)) = 0"
    using updateTimeBasedCounts_counters[of tz w]
    by (simp_all add: fst_getStats updateTimeBasedCounts_frame)
  show "stored_messageStats (w4 tz settings ext profile w) = Some (stats (w4 tz settings ext profile w))"
    by (simp add: w4_def saveMessageHistory_frame recordMessageFailed_def saveStats_def)
  show "stored_messageHistory (w4 tz settings ext profile w) =
           (let l = stored_messageHistory w @
                      [\<lparr> h_id = ''hist-'' @ showInt (clock w) @ ''-'' @ historyRandom ext,
                         h_profileId = id' profile, h_profileName = name profile,
                         h_message = [], h_sentAt = TimeValue (clock w), h_success = False,
                         h_error = err, h_openaiModel = Some (openaiModel settings) \<rparr>]
            in if length l > 500 then tl l else l)"
    by (simp add: w4_def saveMessageHistory_def Let_def record_frame updateTimeBasedCounts_frame)
  show "stored_messageHistory (w4 tz settings ext profile w) \<noteq> []"
    "\<not> h_success (last (stored_messageHistory (w4 tz settings ext profile w)))"
    "h_error (last (stored_messageHistory (w4 tz settings ext profile w))) = err"
    by (simp_all add: w4_def saveMessageHistory_last)
  show "stored_messageTemplates (w4 tz settings ext profile w) = stored_messageTemplates w"
    "stored_profiles (w4 tz settings ext profile w) = stored_profiles w"
    "trace (w4 tz settings ext profile w)
           = trace w @ [ChatCompletion (openaiModel settings) (createPrompt profile)]"
    "clock (w4 tz settings ext profile w) = clock w"
    by (simp_all add: w4_def saveMessageHistory_frame record_frame updateTimeBasedCounts_frame)
qed

lemma failed_generation_loadPending:
  "loadPending
     (saveMessageHistory settings ext profile [] False err
       (recordMessageFailed
         ((updateTimeBasedCounts tz w)\<lparr>trace := trace (updateTimeBasedCounts tz w) @ evs\<rparr>)))
   = loadPending w"
  by (simp add: saveMessageHistory_def recordMessageFailed_def saveStats_def Let_def
        updateTimeBasedCounts_frame)

lemma generator_not_configured:
  "\<not> isOpenAIConfigured ext \<Longrightarrow>
     fst (generatePersonalizedMessage ext profile model w)
       = Inl (Error ''OpenAI client not initialized. Please set API key.'')"
  by (simp add: generatePersonalizedMessage_def isOpenAIConfigured_def)

lemma sample_generation_throws:
  "fst (generatePersonalizedMessage (sampleExternal (Throws (Error ''timeout''))) sampleProfile
          (openaiModel (sampleSettings 5 50 0)) w) = Inl (Error ''timeout'')"
  by (simp add: generatePersonalizedMessage_def sampleExternal_def Let_def)

lemma sample_admitted: "allowed (fst (canSendMessage utcZone (sampleSettings 5 50 0) sampleWorld))"
  by (simp add: sample_canSend)

lemma sample_getStats: "fst (getStats utcZone sampleWorld) = sampleStats\<lparr>messagesThisHour := 0\<rparr>"
proof -
  have "updateTimeBasedCounts utcZone sampleWorld
          = snd (canSendMessage utcZone (sampleSettings 5 50 0) sampleWorld)"
    by (simp add: snd_canSendMessage)
  then show ?thesis by (simp add: fst_getStats sample_canSend)
qed

lemma unconfigured_not_configured: "\<not> isOpenAIConfigured unconfiguredExternal"
  by (simp add: isOpenAIConfigured_def unconfiguredExternal_def)

text \<open>
  A limiter just constructed works on zeroed stats until its load lands.  If the load
  lands while \<open>sendMessage\<close> waits for the generator, the failure is recorded on the
  stats that were loaded, not on those the call started with: here \<open>totalSent\<close> is 0
  in memory when the call starts and 3 when the failure has been recorded.  The
  amended statement is therefore about a limiter whose load has landed.
\<close>

lemma pending_load_lands_during_generation:
  "loadPending (newRateLimiter sampleWorld)
   \<and> totalSent (stats (newRateLimiter sampleWorld)) = 0
   \<and> allowed (fst (canSendMessage utcZone (sampleSettings 5 50 0) (newRateLimiter sampleWorld)))
   \<and> totalSent (stats (recordMessageFailed (loadStats utcZone
        (snd (generatePersonalizedMessage (sampleExternal (Throws (Error ''timeout'')))
                sampleProfile (openaiModel (sampleSettings 5 50 0))
                (snd (canSendMessage utcZone (sampleSettings 5 50 0)
                        (newRateLimiter sampleWorld)))))))) = 3"
  by code_simp

text \<open>
  Claim C4, as the specification states it, fails in two ways.  On the window counters:
  three hours after the last send the generator throws, and the hourly counter is 3 before
  the call and 0 after it.  On the failure of the generator for want of credentials: the
  generator fails on a client that is not set, but \<open>sendMessage\<close> tests the client first
  and returns without calling the generator, so that \<open>totalFailed\<close> stays as it was and
  no history record is written.
\<close>

theorem generation_error_counterexample:
  "allowed (fst (canSendMessage utcZone (sampleSettings 5 50 0) sampleWorld))
   \<and> fst (generatePersonalizedMessage (sampleExternal (Throws (Error ''timeout''))) sampleProfile
          (openaiModel (sampleSettings 5 50 0))
          (snd (canSendMessage utcZone (sampleSettings 5 50 0) sampleWorld))) = Inl (Error ''timeout'')
   \<and> messagesThisHour (stats sampleWorld) = 3
   \<and> messagesThisHour (stats (snd (snd
        (sendMessage utcZone (sampleSettings 5 50 0) (sampleExternal (Throws (Error ''timeout'')))
           sampleProfile None sampleWorld)))) = 0
   \<and> fst (generatePersonalizedMessage unconfiguredExternal sampleProfile
          (openaiModel (sampleSettings 5 50 0))
          (snd (canSendMessage utcZone (sampleSettings 5 50 0) sampleWorld)))
        = Inl (Error ''OpenAI client not initialized. Please set API key.'')
   \<and> fst (sendMessage utcZone (sampleSettings 5 50 0) unconfiguredExternal sampleProfile None
             sampleWorld)
        = \<lparr> r_success = False, r_message = None,
             r_error = Some ''OpenAI API key not configured'' \<rparr>
   \<and> totalFailed (stats sampleWorld) = 0
   \<and> totalFailed (stats (snd (snd
        (sendMessage utcZone (sampleSettings 5 50 0) unconfiguredExternal sampleProfile None
           sampleWorld)))) = 0
   \<and> stored_messageHistory sampleWorld = []
   \<and> stored_messageHistory (snd (snd
        (sendMessage utcZone (sampleSettings 5 50 0) unconfiguredExternal sampleProfile None
           sampleWorld))) = []"
proof -
  have c: "isOpenAIConfigured (sampleExternal (Throws (Error ''timeout'')))"
    by (simp add: isOpenAIConfigured_def sampleExternal_def)
  have t: "\<not> truthy None" by simp
  have "stats (snd (snd (sendMessage utcZone (sampleSettings 5 50 0)
          (sampleExternal (Throws (Error ''timeout''))) sampleProfile None sampleWorld)))
        = (fst (getStats utcZone sampleWorld))\<lparr>totalFailed := totalFailed (stats sampleWorld) + 1\<rparr>"
    using sendMessage_generation_fails[OF sample_admitted t c sample_generation_throws]
          failed_generation_world(1)[where tz = utcZone and w = sampleWorld]
    by (simp add: Let_def)
  then have thrown: "messagesThisHour (stats (snd (snd
        (sendMessage utcZone (sampleSettings 5 50 0) (sampleExternal (Throws (Error ''timeout'')))
           sampleProfile None sampleWorld)))) = 0"
    by (simp add: sample_getStats)
  have before: "messagesThisHour (stats sampleWorld) = 3" "totalFailed (stats sampleWorld) = 0"
    "stored_messageHistory sampleWorld = []"
    by (simp_all add: sampleWorld_def sampleStats_def)
  have u: "sendMessage utcZone (sampleSettings 5 50 0) unconfiguredExternal sampleProfile None
             sampleWorld
           = (\<lparr> r_success = False, r_message = None,
                r_error = Some ''OpenAI API key not configured'' \<rparr>, sampleProfile,
              updateTimeBasedCounts utcZone sampleWorld)"
    by (rule sendMessage_not_configured[OF sample_admitted t unconfigured_not_configured])
  have after: "totalFailed (stats (snd (snd
        (sendMessage utcZone (sampleSettings 5 50 0) unconfiguredExternal sampleProfile None
           sampleWorld)))) = 0"
    "stored_messageHistory (snd (snd
        (sendMessage utcZone (sampleSettings 5 50 0) unconfiguredExternal sampleProfile None
           sampleWorld))) = []"
    "fst (sendMessage utcZone (sampleSettings 5 50 0) unconfiguredExternal sampleProfile None
             sampleWorld)
        = \<lparr> r_success = False, r_message = None,
             r_error = Some ''OpenAI API key not configured'' \<rparr>"
    unfolding u by (simp_all add: updateTimeBasedCounts_frame before)
  show ?thesis
    using sample_admitted sample_generation_throws thrown before after
          generator_not_configured[OF unconfigured_not_configured]
    by simp
qed

text \<open>
  Claim C4, amended.  Take a call of \<open>sendMessage\<close> with no text given by the caller, that
  the rate limiter admits, on a limiter whose load of the persisted stats has landed (so
  that none can land in the middle of the call), and let the generator be one that fails.
  In every case the result is a failure with an error string and no message;
  \<open>totalSent\<close> and \<open>lastSentAt\<close> are unchanged; the recipient record (\<open>messageCount\<close>,
  \<open>lastMessageSent\<close>), the stored recipients and the templates are unchanged; and each
  window counter is unchanged or reset to 0: it is left as the rollover of the admission
  check computes it.

  If the client is configured, the generator is called and throws: \<open>totalFailed\<close> goes up
  by exactly 1 and the stats are saved, and one history record with \<open>success = false\<close>,
  the error and an empty message is appended.

  If the client is not configured, the generator (which would fail with
  \<open>OpenAI client not initialized\<close>) is not called: the error is
  \<open>OpenAI API key not configured\<close>, \<open>totalFailed\<close> is unchanged, nothing is saved and no
  history record is written.
\<close>

theorem sendMessage_generation_error:
  assumes "\<not> truthy customMessage"
    and "allowed (fst (canSendMessage tz settings w))"
    and "\<not> loadPending w"
    and "fst (generatePersonalizedMessage ext profile (openaiModel settings)
               (snd (canSendMessage tz settings w))) = Inl e"
  shows "(let (res, profile', w') = sendMessage tz settings ext profile customMessage w
          in r_success res = False \<and> r_message res = None \<and> r_error res \<noteq> None
           \<and> profile' = profile
           \<and> totalSent (stats w') = totalSent (stats w)
           \<and> lastSentAt (stats w') = lastSentAt (stats w)
           \<and> (messagesToday (stats w') = messagesToday (stats w) \<or> messagesToday (stats w') = 0)
           \<and> (messagesThisHour (stats w') = messagesThisHour (stats w)
                \<or> messagesThisHour (stats w') = 0)
           \<and> stored_messageTemplates w' = stored_messageTemplates w
           \<and> stored_profiles w' = stored_profiles w
           \<and> clock w' = clock w
           \<and> \<not> loadPending w'
           \<and> (if isOpenAIConfigured ext then
                 res = \<lparr> r_success = False, r_message = None,
                         r_error = Some (''Failed to generate message: '' @ errorMessage e) \<rparr>
                 \<and> stats w' = (fst (getStats tz w))\<lparr>totalFailed := totalFailed (stats w) + 1\<rparr>
                 \<and> totalFailed (stats w') = totalFailed (stats w) + 1
                 \<and> stored_messageStats w' = Some (stats w')
                 \<and> stored_messageHistory w' =
                     (let l = stored_messageHistory w @
                                [\<lparr> h_id = ''hist-'' @ showInt (clock w) @ ''-'' @ historyRandom ext,
                                   h_profileId = id' profile, h_profileName = name profile,
                                   h_message = [], h_sentAt = TimeValue (clock w),
                                   h_success = False,
                                   h_error = Some (''Failed to generate: '' @ errorMessage e),
                                   h_openaiModel = Some (openaiModel settings) \<rparr>]
                      in if length l > 500 then tl l else l)
                 \<and> stored_messageHistory w' \<noteq> []
                 \<and> \<not> h_success (last (stored_messageHistory w'))
                 \<and> h_error (last (stored_messageHistory w'))
                       = Some (''Failed to generate: '' @ errorMessage e)
                 \<and> trace w' = trace w @ [ChatCompletion (openaiModel settings) (createPrompt profile)]
               else
                 e = Error ''OpenAI client not initialized. Please set API key.''
                 \<and> res = \<lparr> r_success = False, r_message = None,
                           r_error = Some ''OpenAI API key not configured'' \<rparr>
                 \<and> w' = snd (canSendMessage tz settings w)
                 \<and> stats w' = fst (getStats tz w)
                 \<and> totalFailed (stats w') = totalFailed (stats w)
                 \<and> stored_messageStats w' = stored_messageStats w
                 \<and> stored_messageHistory w' = stored_messageHistory w
                 \<and> trace w' = trace w))"
proof (cases "isOpenAIConfigured ext")
  case conf: True
  define err where "err = Some (''Failed to generate: '' @ errorMessage e)"
  define w4 where "w4 =
     saveMessageHistory settings ext profile [] False err
       (recordMessageFailed
         ((updateTimeBasedCounts tz w)\<lparr>trace := trace (updateTimeBasedCounts tz w) @
             [ChatCompletion (openaiModel settings) (createPrompt profile)]\<rparr>))"
  have s: "sendMessage tz settings ext profile customMessage w =
     (\<lparr> r_success = False, r_message = None,
        r_error = Some (''Failed to generate message: '' @ errorMessage e) \<rparr>, profile, w4)"
    using sendMessage_generation_fails[OF assms(2) assms(1) conf assms(4)]
    by (simp add: Let_def w4_def err_def)
  have p: "\<not> loadPending w4"
    using assms(3) unfolding w4_def by (simp add: failed_generation_loadPending)
  have r: "r_success \<lparr> r_success = False, r_message = None,
        r_error = Some (''Failed to generate message: '' @ errorMessage e) \<rparr> = False"
    "r_message \<lparr> r_success = False, r_message = None,
        r_error = Some (''Failed to generate message: '' @ errorMessage e) \<rparr> = None"
    "r_error \<lparr> r_success = False, r_message = None,
        r_error = Some (''Failed to generate message: '' @ errorMessage e) \<rparr> \<noteq> None"
    by simp_all
  show ?thesis
    unfolding s prod.case Let_def[of "(_, _, _)"] err_def[symmetric] if_P[OF conf]
    using failed_generation_world[where err = err and tz = tz and settings = settings and ext = ext
            and profile = profile and w = w, folded w4_def] p r
    by blast
next
  case unconf: False
  have s: "sendMessage tz settings ext profile customMessage w =
     (\<lparr> r_success = False, r_message = None,
        r_error = Some ''OpenAI API key not configured'' \<rparr>, profile, updateTimeBasedCounts tz w)"
    by (rule sendMessage_not_configured[OF assms(2) assms(1) unconf])
  have e: "e = Error ''OpenAI client not initialized. Please set API key.''"
    using assms(4) generator_not_configured[OF unconf, of profile "openaiModel settings"
            "snd (canSendMessage tz settings w)"]
    by simp
  show ?thesis
    unfolding s prod.case Let_def[of "(_, _, _)"] if_not_P[OF unconf]
    using updateTimeBasedCounts_counters[of tz w] assms(3) e
    by (simp add: updateTimeBasedCounts_frame snd_canSendMessage fst_getStats)
qed

theorem sendMessage_generation_error_witness:
  "\<not> truthy None
   \<and> allowed (fst (canSendMessage utcZone (sampleSettings 5 50 0) sampleWorld))
   \<and> \<not> loadPending sampleWorld
   \<and> isOpenAIConfigured (sampleExternal (Throws (Error ''timeout'')))
   \<and> fst (generatePersonalizedMessage (sampleExternal (Throws (Error ''timeout''))) sampleProfile
          (openaiModel (sampleSettings 5 50 0))
          (snd (canSendMessage utcZone (sampleSettings 5 50 0) sampleWorld))) = Inl (Error ''timeout'')
   \<and> fst (sendMessage utcZone (sampleSettings 5 50 0) (sampleExternal (Throws (Error ''timeout'')))
           sampleProfile None sampleWorld)
       = \<lparr> r_success = False, r_message = None,
            r_error = Some ''Failed to generate message: timeout'' \<rparr>
   \<and> totalFailed (stats (snd (snd
        (sendMessage utcZone (sampleSettings 5 50 0) (sampleExternal (Throws (Error ''timeout'')))
           sampleProfile None sampleWorld)))) = 1
   \<and> totalSent (stats (snd (snd
        (sendMessage utcZone (sampleSettings 5 50 0) (sampleExternal (Throws (Error ''timeout'')))
           sampleProfile None sampleWorld)))) = 3
   \<and> \<not> isOpenAIConfigured unconfiguredExternal
   \<and> fst (generatePersonalizedMessage unconfiguredExternal sampleProfile
          (openaiModel (sampleSettings 5 50 0))
          (snd (canSendMessage utcZone (sampleSettings 5 50 0) sampleWorld)))
        = Inl (Error ''OpenAI client not initialized. Please set API key.'')
   \<and> r_error (fst (sendMessage utcZone (sampleSettings 5 50 0) unconfiguredExternal
           sampleProfile None sampleWorld)) = Some ''OpenAI API key not configured''
   \<and> totalFailed (stats (snd (snd
        (sendMessage utcZone (sampleSettings 5 50 0) unconfiguredExternal
           sampleProfile None sampleWorld)))) = 0
   \<and> totalSent (stats (snd (snd
        (sendMessage utcZone (sampleSettings 5 50 0) unconfiguredExternal
           sampleProfile None sampleWorld)))) = 3"
proof -
  have c: "isOpenAIConfigured (sampleExternal (Throws (Error ''timeout'')))"
    by (simp add: isOpenAIConfigured_def sampleExternal_def)
  have t: "\<not> truthy None" by simp
  have l: "\<not> loadPending sampleWorld" by (simp add: sampleWorld_def)
  have s: "totalFailed (stats sampleWorld) = 0" "totalSent (stats sampleWorld) = 3"
    "totalSent (fst (getStats utcZone sampleWorld)) = 3"
    by (simp_all add: fst_getStats updateTimeBasedCounts_frame sampleWorld_def sampleStats_def)
  note g = generator_not_configured[OF unconfigured_not_configured, of sampleProfile
             "openaiModel (sampleSettings 5 50 0)"
             "snd (canSendMessage utcZone (sampleSettings 5 50 0) sampleWorld)"]
  have configured: "fst (sendMessage utcZone (sampleSettings 5 50 0)
           (sampleExternal (Throws (Error ''timeout''))) sampleProfile None sampleWorld)
       = \<lparr> r_success = False, r_message = None,
            r_error = Some ''Failed to generate message: timeout'' \<rparr>
   \<and> totalFailed (stats (snd (snd
        (sendMessage utcZone (sampleSettings 5 50 0) (sampleExternal (Throws (Error ''timeout'')))
           sampleProfile None sampleWorld)))) = 1
   \<and> totalSent (stats (snd (snd
        (sendMessage utcZone (sampleSettings 5 50 0) (sampleExternal (Throws (Error ''timeout'')))
           sampleProfile None sampleWorld)))) = 3"
    using sendMessage_generation_error[OF t sample_admitted l sample_generation_throws] c s
    by (simp add: case_prod_beta Let_def)
  have unconfigured: "r_error (fst (sendMessage utcZone (sampleSettings 5 50 0)
           unconfiguredExternal sampleProfile None sampleWorld))
         = Some ''OpenAI API key not configured''
   \<and> totalFailed (stats (snd (snd
        (sendMessage utcZone (sampleSettings 5 50 0) unconfiguredExternal
           sampleProfile None sampleWorld)))) = 0
   \<and> totalSent (stats (snd (snd
        (sendMessage utcZone (sampleSettings 5 50 0) unconfiguredExternal
           sampleProfile None sampleWorld)))) = 3"
    using sendMessage_generation_error[OF t sample_admitted l g] unconfigured_not_configured s
    by (simp add: case_prod_beta Let_def snd_canSendMessage updateTimeBasedCounts_frame)
  show ?thesis
    using t sample_admitted l c sample_generation_throws unconfigured_not_configured g
          configured unconfigured
    by blast
qed

subsection \<open>An empty text given by the caller\<close>

text \<open>
  Claim C10.  \<open>sendMessage\<close> with the empty string as \<open>customMessage\<close> does exactly
  what it does with no \<open>customMessage\<close>.  When the send is admitted and the client is
  configured, the generator is called; the text it returns goes through
  \<open>applyNameTemplate\<close> and that, never the empty string, is what is delivered.
\<close>

theorem sendMessage_empty_override:
  "sendMessage tz settings ext profile (Some []) w = sendMessage tz settings ext profile None w
   \<and> (let (res, profile', w') = sendMessage tz settings ext profile (Some []) w;
           pause = delayBetweenMessages (rateLimit settings);
           request = ChatCompletion (openaiModel settings) (createPrompt profile)
       in if allowed (fst (canSendMessage tz settings w)) \<and> isOpenAIConfigured ext then
            (case fst (generatePersonalizedMessage ext profile (openaiModel settings) w) of
               Inr generated \<Rightarrow>
                 r_message res = Some (applyNameTemplate settings generated profile)
                 \<and> r_message res \<noteq> Some []
                 \<and> trace w' = trace w @ [request] @ (if 0 < pause then [Sleep pause] else [])
                       @ [ConsoleLog (name profile) (applyNameTemplate settings generated profile)]
             | Inl e \<Rightarrow> r_success res = False \<and> trace w' = trace w @ [request])
          else r_success res = False \<and> trace w' = trace w)"
proof -
  have t: "\<not> truthy (Some [])" by simp
  have eq: "sendMessage tz settings ext profile (Some []) w = sendMessage tz settings ext profile None w"
    by (simp add: sendMessage_def Let_def cong: if_cong split: prod.split)
  obtain res profile' w' where s: "sendMessage tz settings ext profile (Some []) w = (res, profile', w')"
    by (cases "sendMessage tz settings ext profile (Some []) w")
  have nonempty: "applyNameTemplate settings generated profile \<noteq> []" for generated
    by (simp add: applyNameTemplate_def Let_def)
  have rest: "if allowed (fst (canSendMessage tz settings w)) \<and> isOpenAIConfigured ext then
            (case fst (generatePersonalizedMessage ext profile (openaiModel settings) w) of
               Inr generated \<Rightarrow>
                 r_message res = Some (applyNameTemplate settings generated profile)
                 \<and> r_message res \<noteq> Some []
                 \<and> trace w' = trace w @ [ChatCompletion (openaiModel settings) (createPrompt profile)]
                       @ (if 0 < delayBetweenMessages (rateLimit settings)
                          then [Sleep (delayBetweenMessages (rateLimit settings))] else [])
                       @ [ConsoleLog (name profile) (applyNameTemplate settings generated profile)]
             | Inl e \<Rightarrow> r_success res = False
                 \<and> trace w' = trace w @ [ChatCompletion (openaiModel settings) (createPrompt profile)])
          else r_success res = False \<and> trace w' = trace w"
  proof (cases "allowed (fst (canSendMessage tz settings w))")
    case False
    then show ?thesis
      using s sendMessage_denied[OF False, of ext profile "Some []"]
      by (auto simp add: updateTimeBasedCounts_frame)
  next
    case adm: True
    show ?thesis
    proof (cases "isOpenAIConfigured ext")
      case False
      then show ?thesis
        using s sendMessage_not_configured[OF adm t False, of profile]
        by (auto simp add: updateTimeBasedCounts_frame)
    next
      case conf: True
      show ?thesis
      proof (cases "fst (generatePersonalizedMessage ext profile (openaiModel settings) w)")
        case (Inl e)
        then have "fst (generatePersonalizedMessage ext profile (openaiModel settings)
                     (snd (canSendMessage tz settings w))) = Inl e"
          using fst_generatePersonalizedMessage[of ext profile "openaiModel settings" w] by simp
        from sendMessage_generation_fails[OF adm t conf this] s
        have "res = \<lparr> r_success = False, r_message = None,
                       r_error = Some (''Failed to generate message: '' @ errorMessage e) \<rparr>"
          and "w' = saveMessageHistory settings ext profile [] False
                 (Some (''Failed to generate: '' @ errorMessage e))
                 (recordMessageFailed ((updateTimeBasedCounts tz w)\<lparr>trace :=
                    trace (updateTimeBasedCounts tz w) @
                    [ChatCompletion (openaiModel settings) (createPrompt profile)]\<rparr>))"
          by (simp_all add: Let_def)
        then show ?thesis
          using adm conf Inl
          by (simp add: saveMessageHistory_frame record_frame updateTimeBasedCounts_frame)
      next
        case (Inr generated)
        from sendMessage_generated[OF adm t conf Inr] s
        have "res = \<lparr> r_success = True, r_message = Some (applyNameTemplate settings generated profile),
                       r_error = None \<rparr>"
          and "trace w' = trace w @ [ChatCompletion (openaiModel settings) (createPrompt profile)]
                 @ (if 0 < delayBetweenMessages (rateLimit settings)
                    then [Sleep (delayBetweenMessages (rateLimit settings))] else [])
                 @ [ConsoleLog (name profile) (applyNameTemplate settings generated profile)]"
          by (auto simp add: Let_def updateProfileMessageCount_def saveMessageHistory_frame
                saveMessageTemplate_frame record_frame actuallySendMessage_def delay_def
                updateTimeBasedCounts_frame)
        then show ?thesis
          using adm conf Inr nonempty[of generated] by simp
      qed
    qed
  qed
  show ?thesis
    unfolding s prod.case Let_def
    using eq rest s by simp
qed

section \<open>Properties of the date strings\<close>

subsection \<open>Digits\<close>

lemma digitValue_digit: "digitValue (digit n) = Some (n mod 10)"
proof -
  have r: "0 \<le> n mod 10" "n mod 10 < 10" by simp_all
  then have "(48 + n mod 10) mod 256 = 48 + n mod 10" by simp
  then have "(of_char (digit n) :: int) = 48 + n mod 10"
    by (simp add: digit_def)
  then show ?thesis using r by (simp add: digitValue_def)
qed

lemma readDigitsFrom_snoc:
  "readDigitsFrom acc (xs @ [c]) =
     (case readDigitsFrom acc xs of
        None \<Rightarrow> None
      | Some a \<Rightarrow> (case digitValue c of None \<Rightarrow> None | Some d \<Rightarrow> Some (10 * a + d)))"
  by (induction xs arbitrary: acc) (simp_all split: option.split)

lemma readDigitsFrom_padDigits:
  "readDigitsFrom acc (padDigits k n) = Some (acc * 10 ^ k + n mod 10 ^ k)"
proof (induction k arbitrary: n)
  case 0
  show ?case by simp
next
  case (Suc k)
  have "10 * ((n div 10) mod 10 ^ k) + n mod 10 = n mod (10 * 10 ^ k)"
    using zmod_zmult2_eq[of "10 ^ k" n 10] by simp
  then show ?case
    by (simp add: readDigitsFrom_snoc Suc.IH digitValue_digit algebra_simps)
qed

lemma length_padDigits: "length (padDigits k n) = k"
  by (induction k arbitrary: n) simp_all

lemma takeDigits_padDigits:
  "takeDigits k (padDigits k n @ rest) = Some (n mod 10 ^ k, rest)"
  by (simp add: takeDigits_def length_padDigits readDigitsFrom_padDigits)

subsection \<open>The time within the day\<close>

lemma time_within_day:
  "MakeTime (HourFromTime t) (MinFromTime t) (SecFromTime t) (msFromTime t) = TimeWithinDay t"
proof -
  define s where "s = t div 1000"
  define m where "m = s div 60"
  define h where "h = m div 60"
  have 1: "t div 60000 = m" unfolding m_def s_def by (simp add: zdiv_zmult2_eq[symmetric])
  have 2: "t div 3600000 = h" unfolding h_def m_def s_def by (simp add: zdiv_zmult2_eq[symmetric])
  have 3: "t div 86400000 = h div 24" unfolding h_def m_def s_def by (simp add: zdiv_zmult2_eq[symmetric])
  have d: "t = 1000 * s + t mod 1000" "s = 60 * m + s mod 60" "m = 60 * h + m mod 60"
    "h = 24 * (h div 24) + h mod 24"
    unfolding s_def m_def h_def by simp_all
  have "t mod 86400000 = t - 86400000 * (t div 86400000)"
    by (simp add: minus_mult_div_eq_mod)
  then show ?thesis
    unfolding MakeTime_def HourFromTime_def MinFromTime_def SecFromTime_def msFromTime_def
      TimeWithinDay_def msPerHour_def msPerMinute_def msPerSecond_def msPerDay_def 1 2 3
      s_def[symmetric]
    using d by linarith
qed

lemma day_and_time: "MakeDate (Day t) (TimeWithinDay t) = t"
  by (simp add: MakeDate_def Day_def TimeWithinDay_def)

lemma time_field_bounds:
  "0 \<le> HourFromTime t" "HourFromTime t < 24" "0 \<le> MinFromTime t" "MinFromTime t < 60"
  "0 \<le> SecFromTime t" "SecFromTime t < 60" "0 \<le> msFromTime t" "msFromTime t < 1000"
  by (simp_all add: HourFromTime_def MinFromTime_def SecFromTime_def msFromTime_def msPerSecond_def)

subsection \<open>The calendar\<close>

lemma civil_of_day_props:
  assumes "civil_of_day z = (y, m, d)"
  shows "0 \<le> m \<and> m \<le> 11 \<and> 1 \<le> d \<and> d \<le> 31 \<and> day_of_civil y m d = z
         \<and> 400 * ((z + 719468) div 146097) \<le> y \<and> y \<le> 400 * ((z + 719468) div 146097) + 400"
proof -
  define z' where "z' = z + 719468"
  define era where "era = z' div 146097"
  define doe where "doe = z' mod 146097"
  define c where "c = min (doe div 36524) 3"
  define r1 where "r1 = doe - c * 36524"
  define q where "q = r1 div 1461"
  define r2 where "r2 = r1 mod 1461"
  define a where "a = min (r2 div 365) 3"
  define doy where "doy = r2 - a * 365"
  define yoe where "yoe = c * 100 + q * 4 + a"
  define mp where "mp = (5 * doy + 2) div 153"
  define d0 where "d0 = doy - (153 * mp + 2) div 5 + 1"
  define m0 where "m0 = (if mp < 10 then mp + 2 else mp - 10)"
  define y0 where "y0 = yoe + era * 400 + (if m0 \<le> 1 then 1 else 0)"
  have "civil_of_day z = (y0, m0, d0)"
    unfolding civil_of_day_def Let_def y0_def m0_def d0_def mp_def yoe_def doy_def a_def r2_def
      q_def r1_def c_def doe_def era_def z'_def ..
  with assms have ymd: "y = y0" "m = m0" "d = d0" by simp_all
  have z': "z' = era * 146097 + doe"
    unfolding era_def doe_def by simp
  have doe: "0 \<le> doe" "doe \<le> 146096"
    unfolding doe_def by simp_all
  have c: "0 \<le> c" "c \<le> 3"
    unfolding c_def using doe by (simp_all add: pos_imp_zdiv_nonneg_iff)
  have r1: "0 \<le> r1" "r1 \<le> 36524"
  proof -
    have s: "doe = 36524 * (doe div 36524) + doe mod 36524" by simp
    have b: "0 \<le> doe mod 36524" "doe mod 36524 < 36524" by simp_all
    show "0 \<le> r1" unfolding r1_def c_def using s b doe by (cases "doe div 36524 \<le> 3") simp_all
    show "r1 \<le> 36524" unfolding r1_def c_def using s b doe by (cases "doe div 36524 \<le> 3") simp_all
  qed
  have q: "0 \<le> q" "q \<le> 24"
    unfolding q_def using r1 by (simp_all add: pos_imp_zdiv_nonneg_iff)
  have r2: "0 \<le> r2" "r2 \<le> 1460" "r1 = 1461 * q + r2"
    unfolding r2_def q_def by simp_all
  have a: "0 \<le> a" "a \<le> 3"
    unfolding a_def using r2 by (simp_all add: pos_imp_zdiv_nonneg_iff)
  have doy: "0 \<le> doy" "doy \<le> 365"
  proof -
    have s: "r2 = 365 * (r2 div 365) + r2 mod 365" by simp
    have b: "0 \<le> r2 mod 365" "r2 mod 365 < 365" by simp_all
    show "0 \<le> doy" unfolding doy_def a_def using s b r2 by (cases "r2 div 365 \<le> 3") simp_all
    show "doy \<le> 365" unfolding doy_def a_def using s b r2 by (cases "r2 div 365 \<le> 3") simp_all
  qed
  have yoe: "0 \<le> yoe" "yoe \<le> 399"
    unfolding yoe_def using c q a by simp_all
  have mp: "0 \<le> mp" "mp \<le> 11"
    unfolding mp_def using doy by simp_all
  have mpb: "153 * mp \<le> 5 * doy + 2" "5 * doy + 2 < 153 * mp + 153"
    unfolding mp_def by simp_all
  have d0: "1 \<le> d0" "d0 \<le> 31"
    unfolding d0_def using mpb by simp_all
  have m0: "0 \<le> m0" "m0 \<le> 11"
    unfolding m0_def using mp by simp_all
  have y': "(if m0 \<le> 1 then y0 - 1 else y0) = yoe + era * 400"
    unfolding y0_def by simp
  have era': "(yoe + era * 400) div 400 = era" and yoe': "(yoe + era * 400) mod 400 = yoe"
    using yoe by simp_all
  have mp': "(if 2 \<le> m0 then m0 - 2 else m0 + 10) = mp"
    unfolding m0_def using mp by simp
  have doy': "(153 * mp + 2) div 5 + d0 - 1 = doy"
    unfolding d0_def by simp
  have y4: "yoe div 4 = 25 * c + q"
    unfolding yoe_def using a by simp
  have y100: "yoe div 100 = c"
    unfolding yoe_def using a q by simp
  have doe': "yoe * 365 + yoe div 4 - yoe div 100 + doy = doe"
    unfolding y4 y100 unfolding yoe_def doy_def using r2(3) unfolding r1_def by simp
  have "day_of_civil y0 m0 d0 = era * 146097 + doe - 719468"
    unfolding day_of_civil_def Let_def y' era' yoe' mp' doy' doe' ..
  then have "day_of_civil y0 m0 d0 = z"
    using z' by (simp add: z'_def)
  moreover have "400 * era \<le> y0" "y0 \<le> 400 * era + 400"
    unfolding y0_def using yoe by simp_all
  ultimately show ?thesis
    using m0 d0 by (simp add: ymd era_def z'_def)
qed


lemma day_of_civil_date: "day_of_civil y m d = day_of_civil y m 1 + d - 1"
  by (simp add: day_of_civil_def Let_def)

lemma MakeDay_civil:
  assumes "civil_of_day z = (y, m, d)"
  shows "MakeDay y m d = z"
proof -
  from civil_of_day_props[OF assms] have m: "0 \<le> m" "m \<le> 11" and z: "day_of_civil y m d = z"
    by simp_all
  from m have "m div 12 = 0" "m mod 12 = m" by simp_all
  then show ?thesis
    using z day_of_civil_date[of y m d] by (simp add: MakeDay_def)
qed

lemma year_bound:
  assumes "\<bar>t\<bar> \<le> maxTimeValue"
  shows "- 999999 \<le> YearFromTime t \<and> YearFromTime t \<le> 999999"
proof -
  obtain y m d where c: "civil_of_day (Day t) = (y, m, d)"
    by (cases "civil_of_day (Day t)")
  have t: "- 8640000000000000 \<le> t" "t \<le> 8640000000000000"
    using assms by (simp_all add: maxTimeValue_def)
  have "- 100000000 \<le> t div 86400000" using t(1) by linarith
  moreover have "t div 86400000 \<le> 100000000" using t(2) by linarith
  ultimately have z: "- 100000000 \<le> Day t" "Day t \<le> 100000000"
    by (simp_all add: Day_def msPerDay_def)
  have "- 680 \<le> (Day t + 719468) div 146097" using z(1) by linarith
  moreover have "(Day t + 719468) div 146097 \<le> 689" using z(2) by linarith
  ultimately show ?thesis
    using civil_of_day_props[OF c] by (simp add: YearFromTime_def c)
qed

subsection \<open>The wait after a daily denial\<close>

text \<open>On a host whose offset never changes, \<open>getTimeUntilNextDay\<close> is the time from now
  to the next local midnight.\<close>

lemma MakeDay_next: "MakeDay y m (d + 1) = MakeDay y m d + 1"
  by (simp add: MakeDay_def)

lemma getTimeUntilNextDay_fixedZone:
  "getTimeUntilNextDay (fixedZone off) w = msPerDay - (clock w + off) mod msPerDay"
proof -
  let ?l = "clock w + off"
  obtain y m d where c: "civil_of_day (Day ?l) = (y, m, d)"
    by (cases "civil_of_day (Day ?l)")
  have day: "MakeDay (YearFromTime ?l) (MonthFromTime ?l) (DateFromTime ?l + 1) = Day ?l + 1"
    using MakeDay_civil[OF c]
    by (simp add: YearFromTime_def MonthFromTime_def DateFromTime_def c MakeDay_next)
  define t1 where "t1 = setDate (fixedZone off) (clock w) (DateFromTime ?l + 1)"
  have t1: "t1 + off = (Day ?l + 1) * msPerDay + TimeWithinDay ?l"
    unfolding t1_def setDate_def Let_def fixedZone_times day by (simp add: MakeDate_def)
  have "0 \<le> TimeWithinDay ?l" "TimeWithinDay ?l < msPerDay"
    by (simp_all add: TimeWithinDay_def msPerDay_def)
  then have "Day (t1 + off) = Day ?l + 1"
    unfolding t1 Day_def by (simp add: msPerDay_def)
  then have "setHours (fixedZone off) t1 0 0 0 0 = (Day ?l + 1) * msPerDay - off"
    by (simp add: setHours_def Let_def fixedZone_times MakeDate_def MakeTime_def)
  then have "getTimeUntilNextDay (fixedZone off) w = (Day ?l + 1) * msPerDay - off - clock w"
    by (simp add: getTimeUntilNextDay_def Let_def t1_def fixedZone_times)
  also have "\<dots> = msPerDay - ?l mod msPerDay"
    by (simp add: Day_def minus_mod_eq_mult_div[symmetric] algebra_simps)
  finally show ?thesis .
qed

subsection \<open>Reading back what \<open>toISOString\<close> writes\<close>

lemma of_char_digit: "(of_char (digit n) :: int) = 48 + n mod 10"
proof -
  have "0 \<le> n mod 10" "n mod 10 < 10" by simp_all
  then have "(48 + n mod 10) mod 256 = 48 + n mod 10" by simp
  then show ?thesis by (simp add: digit_def)
qed

lemma digit_not_sign: "digit n \<noteq> CHR ''+''" "digit n \<noteq> CHR ''-''"
proof -
  have "(of_char (digit n) :: int) \<noteq> of_char (CHR ''+'')"
    "(of_char (digit n) :: int) \<noteq> of_char (CHR ''-'')"
    unfolding of_char_digit by simp_all
  then show "digit n \<noteq> CHR ''+''" "digit n \<noteq> CHR ''-''" by auto
qed

lemma parseDateFields_format:
  assumes "0 \<le> m" "m \<le> 11" "1 \<le> d" "d \<le> 31" "0 \<le> h" "h < 24" "0 \<le> mi" "mi < 60"
    "0 \<le> sec" "sec < 60" "0 \<le> ms" "ms < 1000"
  shows "parseDateFields yr
           (CHR ''-'' # padDigits 2 (m + 1) @ CHR ''-'' # padDigits 2 d @
            CHR ''T'' # padDigits 2 h @ CHR '':'' # padDigits 2 mi @
            CHR '':'' # padDigits 2 sec @ CHR ''.'' # padDigits 3 ms @ ''Z'')
         = Some (MakeDate (MakeDay yr m d) (MakeTime h mi sec ms))"
  using assms
  by (simp add: parseDateFields_def takeDigits_padDigits)

lemma padDigits_4: "padDigits 4 y = digit (y div 1000) # padDigits 3 y"
  by (simp add: eval_nat_numeral zdiv_zmult2_eq[symmetric])

lemma parseDate_toISOString:
  assumes "\<bar>t\<bar> \<le> maxTimeValue"
  shows "\<exists>s. toISOString (TimeValue t) = Inr s \<and> s \<noteq> [] \<and> parseDate s = Some t"
proof -
  obtain y m d where c: "civil_of_day (Day t) = (y, m, d)"
    by (cases "civil_of_day (Day t)")
  have ymd: "YearFromTime t = y" "MonthFromTime t = m" "DateFromTime t = d"
    by (simp_all add: YearFromTime_def MonthFromTime_def DateFromTime_def c)
  from civil_of_day_props[OF c] have b: "0 \<le> m" "m \<le> 11" "1 \<le> d" "d \<le> 31" by simp_all
  define rest where "rest =
     CHR ''-'' # padDigits 2 (m + 1) @ CHR ''-'' # padDigits 2 d @
     CHR ''T'' # padDigits 2 (HourFromTime t) @ CHR '':'' # padDigits 2 (MinFromTime t) @
     CHR '':'' # padDigits 2 (SecFromTime t) @ CHR ''.'' # padDigits 3 (msFromTime t) @ ''Z''"
  have s: "toISOString (TimeValue t) = Inr (isoYear y @ rest)"
    by (simp add: ymd rest_def)
  have fields: "parseDateFields yr rest = Some t" if "yr = y" for yr
  proof -
    have "parseDateFields yr rest =
            Some (MakeDate (MakeDay yr m d)
                    (MakeTime (HourFromTime t) (MinFromTime t) (SecFromTime t) (msFromTime t)))"
      unfolding rest_def using b time_field_bounds[of t] by (intro parseDateFields_format) simp_all
    then show ?thesis
      using that MakeDay_civil[OF c] by (simp add: time_within_day day_and_time)
  qed
  have yb: "- 999999 \<le> y" "y \<le> 999999"
    using year_bound[OF assms] by (simp_all add: ymd)
  have "parseDate (isoYear y @ rest) = Some t"
  proof (cases "0 \<le> y \<and> y \<le> 9999")
    case True
    then have iso: "isoYear y = padDigits 4 y" by (simp add: isoYear_def)
    have "takeDigits 4 (padDigits 4 y @ rest) = Some (y, rest)"
      using True by (simp add: takeDigits_padDigits)
    then show ?thesis
      unfolding iso parseDate_def
      using fields[of y]
      by (simp add: padDigits_4 digit_not_sign del: padDigits.simps)
  next
    case False
    show ?thesis
    proof (cases "y < 0")
      case True
      then have iso: "isoYear y = CHR ''-'' # padDigits 6 (- y)" by (simp add: isoYear_def)
      have "takeDigits 6 (padDigits 6 (- y) @ rest) = Some (- y, rest)"
        using True yb by (simp add: takeDigits_padDigits)
      then show ?thesis
        unfolding iso parseDate_def
        using fields[of "- (- y)"] True by simp
    next
      case pos: False
      then have iso: "isoYear y = CHR ''+'' # padDigits 6 y"
        using False by (simp add: isoYear_def)
      have "takeDigits 6 (padDigits 6 y @ rest) = Some (y, rest)"
        using pos yb by (simp add: takeDigits_padDigits)
      then show ?thesis
        unfolding iso parseDate_def
        using fields[of y] by simp
    qed
  qed
  moreover have "isoYear y @ rest \<noteq> []" by (simp add: rest_def)
  ultimately show ?thesis using s by blast
qed

lemma newDate_toISOString:
  assumes "validDate date"
  shows "\<exists>s. toISOString date = Inr s \<and> s \<noteq> [] \<and> newDate s = date"
proof (cases date)
  case (TimeValue t)
  then have "\<bar>t\<bar> \<le> maxTimeValue" using assms by simp
  from parseDate_toISOString[OF this] this show ?thesis
    by (auto simp: TimeValue newDate_def TimeClip_def)
next
  case InvalidDate
  then show ?thesis using assms by simp
qed


section \<open>Properties of the serialization\<close>

lemma serialized_dates:
  assumes "wellFormedProfile profile"
  shows "\<exists>c l. toISOString (collectedAt profile) = Inr c \<and> c \<noteq> []
            \<and> newDate c = collectedAt profile
            \<and> (case lastMessageSent profile of
                  None \<Rightarrow> l = None
                | Some d \<Rightarrow> (\<exists>s. l = Some s \<and> toISOString d = Inr s \<and> s \<noteq> [] \<and> newDate s = d))"
proof -
  from assms have "validDate (collectedAt profile)" by (simp add: wellFormedProfile_def)
  from newDate_toISOString[OF this] obtain c where
    c: "toISOString (collectedAt profile) = Inr c" "c \<noteq> []" "newDate c = collectedAt profile"
    by blast
  show ?thesis
  proof (cases "lastMessageSent profile")
    case None
    with c show ?thesis by simp
  next
    case (Some d)
    with assms have "validDate d" by (simp add: wellFormedProfile_def)
    from newDate_toISOString[OF this] obtain s where
      "toISOString d = Inr s" "s \<noteq> []" "newDate s = d" by blast
    with c Some show ?thesis by simp
  qed
qed

lemma safeDate_valid:
  "validDate d \<Longrightarrow> safeDate now (Some d) fallbackNow = Some d"
  by (cases d) (simp_all add: safeDate_def)

lemma safeDate_absent: "safeDate now None False = None"
  by (simp add: safeDate_def)

text \<open>
  Claim C9.  For every profile whose \<open>collectedAt\<close> and \<open>lastMessageSent\<close> (when
  present) are valid dates, \<open>serializeProfile\<close> does not throw, and
  \<open>deserializeProfile\<close> of what it returns is the profile again, field for field, the
  two dates included.  This holds of both versions of \<open>serializeProfile\<close> in the
  repository, whatever the clock reads.
\<close>

theorem serialize_deserialize_roundtrip:
  assumes "wellFormedProfile profile"
  shows "(\<exists>s. serializeProfile profile = Inr s \<and> deserializeProfile now s = profile)
       \<and> (\<exists>s. serializeProfile_safeDate now' profile = Inr s \<and> deserializeProfile now s = profile)"
proof -
  from serialized_dates[OF assms] obtain c l where
    c: "toISOString (collectedAt profile) = Inr c" "c \<noteq> []" "newDate c = collectedAt profile"
    and l: "case lastMessageSent profile of
              None \<Rightarrow> l = None
            | Some d \<Rightarrow> (\<exists>s. l = Some s \<and> toISOString d = Inr s \<and> s \<noteq> [] \<and> newDate s = d)"
    by blast
  have v: "validDate (collectedAt profile)" using assms by (simp add: wellFormedProfile_def)
  have first: "\<exists>s. serializeProfile profile = Inr s \<and> deserializeProfile now s = profile"
  proof (cases "lastMessageSent profile")
    case None
    then show ?thesis
      using c by (simp add: serializeProfile_def deserializeProfile_def split: option.split)
  next
    case (Some d)
    with l obtain s where "l = Some s" "toISOString d = Inr s" "s \<noteq> []" "newDate s = d" by auto
    then show ?thesis
      using c Some by (simp add: serializeProfile_def deserializeProfile_def split: option.split)
  qed
  have second: "\<exists>s. serializeProfile_safeDate now' profile = Inr s \<and> deserializeProfile now s = profile"
  proof (cases "lastMessageSent profile")
    case None
    then show ?thesis
      using c
      by (simp add: serializeProfile_safeDate_def deserializeProfile_def safeDate_valid[OF v]
            safeDate_absent split: option.split)
  next
    case (Some d)
    with l obtain s where s: "l = Some s" "toISOString d = Inr s" "s \<noteq> []" "newDate s = d" by auto
    have "validDate d" using assms Some by (simp add: wellFormedProfile_def)
    then show ?thesis
      using c Some s
      by (simp add: serializeProfile_safeDate_def deserializeProfile_def safeDate_valid[OF v]
            safeDate_valid split: option.split)
  qed
  from first second show ?thesis by blast
qed

lemma sample_serialized:
  "serializeProfile sampleProfile =
     Inr \<lparr> s_id = ''p1'', s_name = ''Grace'', s_email = None, s_country = Some ''Canada'',
           s_age = None, s_ageGroup = Some Age26_35, s_interests = Some [AI, Startups],
           s_bio = None, s_profileUrl = ''https://example.org/p1'',
           s_collectedAt = ''2023-11-03T08:26:40.000Z'',
           s_lastMessageSent = Some ''2023-11-11T22:20:00.000Z'', s_messageCount = 2 \<rparr>"
  by code_simp

theorem serialize_deserialize_witness:
  "wellFormedProfile sampleProfile
   \<and> serializeProfile sampleProfile =
     Inr \<lparr> s_id = ''p1'', s_name = ''Grace'', s_email = None, s_country = Some ''Canada'',
           s_age = None, s_ageGroup = Some Age26_35, s_interests = Some [AI, Startups],
           s_bio = None, s_profileUrl = ''https://example.org/p1'',
           s_collectedAt = ''2023-11-03T08:26:40.000Z'',
           s_lastMessageSent = Some ''2023-11-11T22:20:00.000Z'', s_messageCount = 2 \<rparr>
   \<and> deserializeProfile 0
        \<lparr> s_id = ''p1'', s_name = ''Grace'', s_email = None, s_country = Some ''Canada'',
           s_age = None, s_ageGroup = Some Age26_35, s_interests = Some [AI, Startups],
           s_bio = None, s_profileUrl = ''https://example.org/p1'',
           s_collectedAt = ''2023-11-03T08:26:40.000Z'',
           s_lastMessageSent = Some ''2023-11-11T22:20:00.000Z'', s_messageCount = 2 \<rparr>
       = sampleProfile"
proof -
  have w: "wellFormedProfile sampleProfile"
    by (simp add: wellFormedProfile_def sampleProfile_def maxTimeValue_def)
  from serialize_deserialize_roundtrip[OF w, of 0 0] w show ?thesis
    by (auto simp: sample_serialized)
qed

end
